theory Spec2Isabelle
  imports Complex_Main "HOL-Library.AList" "HOL-Library.List_Lexorder" "HOL-Library.Char_ord"
begin

section \<open>Data model (src/index.tsx, lines 51-82)\<close>

text \<open>
  \<^verbatim>\<open>const SIZES = ["XS", "S", "M", "L", "XL", "XXL", "3XL"] as const\<close>.
  The last size is written \<open>XXXL\<close> here, an identifier cannot start with a digit;
  \<open>size_name\<close> gives the string of the source.
\<close>

datatype Size = XS | S | M | L | XL | XXL | XXXL

definition SIZES :: "Size list" where
  "SIZES = [XS, S, M, L, XL, XXL, XXXL]"

fun size_name :: "Size \<Rightarrow> string" where
  "size_name XS = ''XS''"
| "size_name S = ''S''"
| "size_name M = ''M''"
| "size_name L = ''L''"
| "size_name XL = ''XL''"
| "size_name XXL = ''XXL''"
| "size_name XXXL = ''3XL''"

text \<open>
  \<^verbatim>\<open>interface CategoryDefinition { id; name; subcategories }\<close>. The fields carry the
  prefix \<open>cat_\<close>, a record field is a global constant.
\<close>

record CategoryDefinition =
  cat_id :: string
  cat_name :: string
  subcategories :: "string list"

text \<open>
  \<^verbatim>\<open>interface InventoryItem\<close>, split as the source itself splits it: \<open>ProductData\<close> is
  \<^verbatim>\<open>Omit<InventoryItem, 'id'>\<close>, the value stored under \<^verbatim>\<open>/products/{id}\<close>, and
  \<open>InventoryItem\<close> adds the id. \<^verbatim>\<open>Record<Size, number>\<close> is a map from sizes to
  quantities, a missing key is \<open>None\<close>. A quantity is an integer-valued double (the form
  produces it with \<^verbatim>\<open>parseInt\<close>, the sell operation subtracts 1), given here as the integer
  it denotes; the arithmetic on quantities rounds as doubles do, see \<open>to_double\<close>. The price is a number that the operations below only copy. The
  optional fields \<^verbatim>\<open>description?\<close> and \<^verbatim>\<open>imageUrl?\<close> are options, \<open>None\<close> for
  \<^verbatim>\<open>undefined\<close>. Strings are lists of 8-bit characters: code units below 256.
\<close>

record ProductData =
  name :: string
  sku :: string
  category :: string
  subcategory :: string
  sizes :: "Size \<rightharpoonup> int"
  price :: real
  description :: "string option"
  imageUrl :: "string option"

record InventoryItem = ProductData +
  item_id :: string

section \<open>The remote store's write interface\<close>

text \<open>
  The values the handlers write: \<^verbatim>\<open>null\<close> (delete at that path), a string, a number,
  an array of strings, the object \<^verbatim>\<open>{ name, subcategories }\<close> and a product record.
\<close>

datatype wvalue =
    WNull
  | WString string
  | WNumber int
  | WStringList "string list"
  | WCategory string "string list"
  | WProduct ProductData

text \<open>
  \<^verbatim>\<open>const updates: { [key: string]: any } = {}\<close>: an object keyed by path strings. It is an
  association list in insertion order; \<^verbatim>\<open>updates[k] = v\<close> is \<^const>\<open>AList.update\<close>, which
  overwrites the value of a key already present and appends a new key at the end, and
  \<open>map_of\<close> reads it.
\<close>

type_synonym updates = "(string \<times> wvalue) list"

text \<open>
  What one invocation of a handler does to the store: it returns without a write, it
  raises \<^verbatim>\<open>new Error(message)\<close> before any write, it issues one multi-path
  \<^verbatim>\<open>update(dbRef(rtdb), updates)\<close>, or it issues one \<^verbatim>\<open>set(ref(path), value)\<close>.
\<close>

datatype outcome =
    NoWrite
  | Threw string
  | Update updates
  | SetAt string wvalue

text \<open>
  The key of \<^verbatim>\<open>push(ref)\<close> is a parameter of the handler that asks for one; the source
  tests it with \<^verbatim>\<open>if (ref.key)\<close>, false for \<^verbatim>\<open>null\<close> and for the empty string.
\<close>

definition truthy :: "string option \<Rightarrow> bool" where
  "truthy k = (case k of None \<Rightarrow> False | Some s \<Rightarrow> s \<noteq> [])"

text \<open>
  The path templates of the source, one definition for each:
  \<^verbatim>\<open>`/categories/${id}`\<close>, \<^verbatim>\<open>`/categories/${id}/subcategories`\<close>,
  \<^verbatim>\<open>`/products/${id}`\<close>, \<^verbatim>\<open>`/products/${id}/category`\<close>,
  \<^verbatim>\<open>`/products/${id}/subcategory`\<close> and \<^verbatim>\<open>`products/${itemId}/sizes/${sizeToSell}`\<close>
  (the last one without a leading slash, as in the source).
\<close>

definition category_path :: "string \<Rightarrow> string" where
  "category_path k = ''/categories/'' @ k"

definition category_subcategories_path :: "string \<Rightarrow> string" where
  "category_subcategories_path k = ''/categories/'' @ k @ ''/subcategories''"

definition product_path :: "string \<Rightarrow> string" where
  "product_path k = ''/products/'' @ k"

definition product_category_path :: "string \<Rightarrow> string" where
  "product_category_path k = ''/products/'' @ k @ ''/category''"

definition product_subcategory_path :: "string \<Rightarrow> string" where
  "product_subcategory_path k = ''/products/'' @ k @ ''/subcategory''"

definition product_size_path :: "string \<Rightarrow> Size \<Rightarrow> string" where
  "product_size_path k sz = ''products/'' @ k @ ''/sizes/'' @ size_name sz"

section \<open>JavaScript helpers\<close>

text \<open>\<^verbatim>\<open>[...new Set(xs)]\<close>: the elements in order of first occurrence.\<close>

definition js_set :: "'a list \<Rightarrow> 'a list" where
  "js_set xs = foldl (\<lambda>acc x. if x \<in> set acc then acc else acc @ [x]) [] xs"

text \<open>
  \<^verbatim>\<open>[...new Set([...subs, 'Default'])].sort()\<close>; \<^verbatim>\<open>sort()\<close> without a comparator orders
  strings by code units, the lexicographic order of \<open>string\<close>.
\<close>

definition add_default :: "string list \<Rightarrow> string list" where
  "add_default subs = sort (js_set (subs @ [''Default'']))"

text \<open>
  \<^verbatim>\<open>String.prototype.trim\<close> on code units below 256: it strips tab, line feed, vertical
  tab, form feed, carriage return, space and no-break space from both ends.
\<close>

definition js_whitespace :: "char \<Rightarrow> bool" where
  "js_whitespace c = (of_char c \<in> {9, 10, 11, 12, 13, 32, 160 :: nat})"

definition trim :: "string \<Rightarrow> string" where
  "trim s = rev (dropWhile js_whitespace (rev (dropWhile js_whitespace s)))"

text \<open>
  Numbers are IEEE 754 doubles. \<open>bit_length a\<close> is the number of binary digits of \<open>a\<close>, and
  \<open>to_double a\<close> the double nearest to the natural number \<open>a\<close>: \<open>a\<close> itself below \<open>2^53\<close>,
  otherwise \<open>a\<close> rounded to 53 significant binary digits, a tie going to the even
  significand. (The values are below \<open>2^1024\<close>, where doubles end.) \<open>js_minus a b\<close> is
  \<^verbatim>\<open>a - b\<close> on integer-valued doubles: the exact difference, rounded.
\<close>

fun bit_length :: "nat \<Rightarrow> nat" where
  "bit_length n = (if n = 0 then 0 else Suc (bit_length (n div 2)))"

definition to_double :: "nat \<Rightarrow> nat" where
  "to_double a =
    (if a < 2 ^ 53 then a
     else let ulp = 2 ^ (bit_length a - 53);
              q = a div ulp;
              r = a mod ulp;
              half = ulp div 2
          in if r > half \<or> (r = half \<and> odd q) then (q + 1) * ulp else q * ulp)"

definition js_minus :: "int \<Rightarrow> int \<Rightarrow> int" where
  "js_minus a b =
    (let d = a - b
     in if d < 0 then - int (to_double (nat (- d))) else int (to_double (nat d)))"

section \<open>Saving a product (handleSaveItem, lines 693-784)\<close>

text \<open>
  Lines 701-738: the category and subcategory the product is saved under, and the category
  repairs scheduled into \<open>updates\<close>. \<open>Inl\<close> is the error raised when no key could be
  generated for a new "Uncategorized" category.
\<close>

definition validate_item ::
  "CategoryDefinition list \<Rightarrow> string option \<Rightarrow> InventoryItem \<Rightarrow> string + (string \<times> string \<times> updates)" where
  "validate_item categories newUncatKey itemToSave =
    (let categoryDef = find (\<lambda>c. cat_name c = category itemToSave) categories;
         uncategorizedCatDef = find (\<lambda>c. cat_name c = ''Uncategorized'') categories
     in case categoryDef of
          None \<Rightarrow>
            (case uncategorizedCatDef of
               None \<Rightarrow>
                 if truthy newUncatKey
                 then Inr (''Uncategorized'', ''Default'',
                        AList.update (category_path (the newUncatKey))
                          (WCategory ''Uncategorized'' [''Default'']) [])
                 else Inl ''Failed to generate key for new Uncategorized category.''
             | Some u \<Rightarrow>
                 if ''Default'' \<notin> set (subcategories u)
                 then Inr (''Uncategorized'', ''Default'',
                        AList.update (category_subcategories_path (cat_id u))
                          (WStringList (add_default (subcategories u))) [])
                 else Inr (''Uncategorized'', ''Default'', []))
        | Some c \<Rightarrow>
            if subcategory itemToSave \<in> set (subcategories c)
            then Inr (category itemToSave, subcategory itemToSave, [])
            else if ''Default'' \<notin> set (subcategories c)
            then Inr (category itemToSave, ''Default'',
                   AList.update (category_subcategories_path (cat_id c))
                     (WStringList (add_default (subcategories c))) [])
            else Inr (category itemToSave, ''Default'', []))"

text \<open>
  Lines 740-749: \<^verbatim>\<open>finalItemData\<close>. \<^verbatim>\<open>itemToSave.imageUrl?.trim() || ''\<close> is the trimmed
  URL, and the empty string when the URL is absent.
\<close>

definition finalItemData :: "string \<Rightarrow> string \<Rightarrow> InventoryItem \<Rightarrow> ProductData" where
  "finalItemData validatedCategory validatedSubcategory itemToSave =
    \<lparr> name = name itemToSave,
      sku = sku itemToSave,
      category = validatedCategory,
      subcategory = validatedSubcategory,
      sizes = sizes itemToSave,
      price = price itemToSave,
      description = description itemToSave,
      imageUrl = Some (case imageUrl itemToSave of None \<Rightarrow> [] | Some url \<Rightarrow> trim url) \<rparr>"

text \<open>
  The whole handler. \<open>None\<close> for the item is \<^verbatim>\<open>!itemToSave\<close>. An item with a non-empty
  id is written at its own path, a new one at the path of a pushed key. The batch is
  issued when it has at least one key.
\<close>

definition handleSaveItem ::
  "CategoryDefinition list \<Rightarrow> string option \<Rightarrow> string option \<Rightarrow> InventoryItem option \<Rightarrow> outcome" where
  "handleSaveItem categories newUncatKey newItemKey item =
    (case item of
       None \<Rightarrow> Threw ''Item data is missing for save operation.''
     | Some itemToSave \<Rightarrow>
        (case validate_item categories newUncatKey itemToSave of
           Inl e \<Rightarrow> Threw e
         | Inr (validatedCategory, validatedSubcategory, updates) \<Rightarrow>
            let final = finalItemData validatedCategory validatedSubcategory itemToSave in
            if item_id itemToSave \<noteq> []
            then (let updates' = AList.update (product_path (item_id itemToSave)) (WProduct final) updates
                  in if updates' \<noteq> [] then Update updates' else NoWrite)
            else if truthy newItemKey
            then (let updates' = AList.update (product_path (the newItemKey)) (WProduct final) updates
                  in if updates' \<noteq> [] then Update updates' else NoWrite)
            else Threw ''Failed to generate key for new product.''))"

section \<open>View selection state (lines 525-527)\<close>

datatype ViewMode = Admin | Stock

record ViewState =
  viewMode :: ViewMode
  selectedCategoryForView :: "string option"
  selectedSubcategoryForView :: "string option"

section \<open>Deleting a category (handleDeleteCategory, lines 906-943)\<close>

text \<open>
  Lines 912-930, the body of the \<^verbatim>\<open>try\<close> up to the write: the batch, or the error
  raised when no key could be generated for a new "Uncategorized" category.
\<close>

definition delete_category_updates ::
  "CategoryDefinition list \<Rightarrow> InventoryItem list \<Rightarrow> string option \<Rightarrow> string \<Rightarrow> string \<Rightarrow> string + updates" where
  "delete_category_updates categories items newUncatRefKey categoryId categoryName =
    (let itemsToReassign = filter (\<lambda>item. category item = categoryName) items;
         uncategorizedCat = find (\<lambda>c. cat_name c = ''Uncategorized'') categories;
         reassign = (\<lambda>item u.
           AList.update (product_subcategory_path (item_id item)) (WString ''Default'')
             (AList.update (product_category_path (item_id item)) (WString ''Uncategorized'') u))
     in case (case uncategorizedCat of
                None \<Rightarrow>
                  if truthy newUncatRefKey
                  then Inr (AList.update (category_path (the newUncatRefKey))
                              (WCategory ''Uncategorized'' [''Default'']) [])
                  else Inl ''Failed to generate key for Uncategorized category in RTDB.''
              | Some u \<Rightarrow>
                  if ''Default'' \<notin> set (subcategories u)
                  then Inr (AList.update (category_subcategories_path (cat_id u))
                              (WStringList (add_default (subcategories u))) [])
                  else Inr [])
        of Inl e \<Rightarrow> Inl e
         | Inr updates \<Rightarrow>
             Inr (AList.update (category_path categoryId) WNull
                    (fold reassign itemsToReassign updates)))"

text \<open>
  The handler: what it issues to the store, and the view selection afterwards. \<open>accepted\<close>
  says whether the awaited \<^verbatim>\<open>update\<close> resolved; the selection is cleared only then. An
  error raised inside the \<^verbatim>\<open>try\<close> is caught by the handler, which alerts and returns.
\<close>

definition handleDeleteCategory ::
  "CategoryDefinition list \<Rightarrow> InventoryItem list \<Rightarrow> ViewState \<Rightarrow> string option \<Rightarrow> bool \<Rightarrow>
     string \<Rightarrow> string \<Rightarrow> outcome \<times> ViewState" where
  "handleDeleteCategory categories items view newUncatRefKey accepted categoryId categoryName =
    (if categoryName = ''Uncategorized'' \<or> categoryId = [] then (NoWrite, view)
     else case delete_category_updates categories items newUncatRefKey categoryId categoryName of
            Inl e \<Rightarrow> (Threw e, view)
          | Inr updates \<Rightarrow>
              (Update updates,
               if accepted \<and> selectedCategoryForView view = Some categoryName
               then view\<lparr> selectedCategoryForView := None, selectedSubcategoryForView := None \<rparr>
               else view))"

section \<open>Deleting a subcategory (handleDeleteSubcategory, lines 971-1027)\<close>

text \<open>
  Lines 989-1009: the value of \<^verbatim>\<open>updatedSubcategories\<close> when line 1011 reads it, for the
  category found under \<open>categoryId\<close>. The first branch pushes \<^verbatim>\<open>'Default'\<close> and sorts,
  the two others push only.
\<close>

definition updatedSubcategories ::
  "CategoryDefinition \<Rightarrow> InventoryItem list \<Rightarrow> string \<Rightarrow> string \<Rightarrow> string list" where
  "updatedSubcategories parentCategory items categoryName subcategoryName =
    (let filtered = filter (\<lambda>sub. sub \<noteq> subcategoryName) (subcategories parentCategory);
         itemsToReassign =
           filter (\<lambda>item. category item = categoryName \<and> subcategory item = subcategoryName) items;
         afterItems =
           (if itemsToReassign \<noteq> [] then
              (if subcategoryName \<noteq> ''Default'' \<and> ''Default'' \<notin> set filtered
               then sort (filtered @ [''Default''])
               else if subcategoryName = ''Default'' \<and> filtered = [] \<and> categoryName \<noteq> ''Uncategorized''
               then filtered @ [''Default'']
               else filtered)
            else filtered)
     in if categoryName \<noteq> ''Uncategorized'' \<and> afterItems = []
        then afterItems @ [''Default''] else afterItems)"

text \<open>
  Lines 987-1014, the batch: one write of \<^verbatim>\<open>targetSubcategory\<close>, the constant
  \<^verbatim>\<open>'Default'\<close>, for each product of the subcategory, then the category's list (or
  \<^verbatim>\<open>null\<close> for an empty one), overwritten by \<^verbatim>\<open>['Default']\<close> in the case of lines
  1012-1014.
\<close>

definition delete_subcategory_updates ::
  "CategoryDefinition \<Rightarrow> InventoryItem list \<Rightarrow> string \<Rightarrow> string \<Rightarrow> string \<Rightarrow> updates" where
  "delete_subcategory_updates parentCategory items categoryId categoryName subcategoryName =
    (let itemsToReassign =
           filter (\<lambda>item. category item = categoryName \<and> subcategory item = subcategoryName) items;
         targetSubcategory = ''Default'';
         updated = updatedSubcategories parentCategory items categoryName subcategoryName;
         updates =
           (if itemsToReassign \<noteq> [] then
              fold (\<lambda>item u. AList.update (product_subcategory_path (item_id item))
                                (WString targetSubcategory) u) itemsToReassign []
            else []);
         updates' =
           AList.update (category_subcategories_path categoryId)
             (if updated \<noteq> [] then WStringList updated else WNull) updates
     in if categoryName = ''Uncategorized'' \<and> updated = [] \<and> subcategoryName = ''Default''
        then AList.update (category_subcategories_path categoryId) (WStringList [''Default'']) updates'
        else updates')"

text \<open>
  The handler: the three guards that return before the \<^verbatim>\<open>try\<close> (the second and the third
  alert first), then the batch, and the view selection afterwards.
\<close>

definition handleDeleteSubcategory ::
  "CategoryDefinition list \<Rightarrow> InventoryItem list \<Rightarrow> ViewState \<Rightarrow> bool \<Rightarrow>
     string \<Rightarrow> string \<Rightarrow> string \<Rightarrow> outcome \<times> ViewState" where
  "handleDeleteSubcategory categories items view accepted categoryId categoryName subcategoryName =
    (if (categoryName = ''Uncategorized'' \<and> subcategoryName = ''Default'') \<or> categoryId = []
     then (NoWrite, view)
     else case find (\<lambda>c. cat_id c = categoryId) categories of
            None \<Rightarrow> (NoWrite, view)
          | Some parentCategory \<Rightarrow>
              if subcategoryName = ''Default'' \<and> length (subcategories parentCategory) = 1
                   \<and> categoryName \<noteq> ''Uncategorized''
              then (NoWrite, view)
              else
                (Update (delete_subcategory_updates parentCategory items categoryId categoryName
                           subcategoryName),
                 if accepted \<and> selectedCategoryForView view = Some categoryName
                      \<and> selectedSubcategoryForView view = Some subcategoryName
                 then view\<lparr> selectedSubcategoryForView := None \<rparr>
                 else view))"

section \<open>Selling one unit (handleSellItemSize, lines 806-829)\<close>

text \<open>
  \<^verbatim>\<open>item.sizes[sizeToSell] || 0\<close> is 0 for a missing key. The write is a single
  \<^verbatim>\<open>set\<close> at \<^verbatim>\<open>products/{itemId}/sizes/{sizeToSell}\<close>, of \<^verbatim>\<open>currentQuantity - 1\<close> as
  doubles compute it.
\<close>

definition handleSellItemSize :: "InventoryItem list \<Rightarrow> string \<Rightarrow> Size \<Rightarrow> outcome" where
  "handleSellItemSize items itemId sizeToSell =
    (if itemId = [] then NoWrite
     else case find (\<lambda>i. item_id i = itemId) items of
            None \<Rightarrow> NoWrite
          | Some item \<Rightarrow>
              let currentQuantity = (case sizes item sizeToSell of None \<Rightarrow> 0 | Some q \<Rightarrow> q)
              in if currentQuantity > 0
                 then SetAt (product_size_path itemId sizeToSell)
                        (WNumber (js_minus currentQuantity 1))
                 else NoWrite)"

section \<open>CSV export (lines 88-130 and 158-170)\<close>

text \<open>\<^verbatim>\<open>type CsvValue = string | number\<close>; the numbers exported are the quantities.\<close>

datatype CsvValue = CsvString string | CsvNumber int

text \<open>The decimal digits of a natural number.\<close>

definition digit_char :: "nat \<Rightarrow> char" where
  "digit_char d = char_of (48 + d)"

fun nat_digits :: "nat \<Rightarrow> string" where
  "nat_digits n = (if n < 10 then [digit_char n] else nat_digits (n div 10) @ [digit_char (n mod 10)])"

text \<open>
  \<^verbatim>\<open>String(x)\<close> for an integer-valued double \<open>x\<close>. The language defines it by the integers
  \<open>s\<close> of \<open>k\<close> digits and \<open>n\<close> with the least \<open>k\<close> such that \<open>s * 10^(n - k)\<close> reads back as
  \<open>x\<close>, the nearest to \<open>x\<close> if there are several. \<open>shortest_candidates x k\<close> lists the pairs
  \<open>(s, n - k)\<close> for one \<open>k\<close>: only the multiples of \<open>10^(n - k)\<close> next to \<open>x\<close> on either side can
  be nearest. No double needs more than 17 digits.
\<close>

definition shortest_candidates :: "nat \<Rightarrow> nat \<Rightarrow> (nat \<times> nat) list" where
  "shortest_candidates x k =
     concat (map (\<lambda>n. if k \<le> n
                       then filter (\<lambda>(s, e). 10 ^ (k - 1) \<le> s \<and> s < 10 ^ k \<and> to_double (s * 10 ^ e) = x)
                              [(x div 10 ^ (n - k), n - k), (x div 10 ^ (n - k) + 1, n - k)]
                       else [])
               [length (nat_digits x), length (nat_digits x) + 1])"

definition nearer :: "nat \<Rightarrow> nat \<times> nat \<Rightarrow> nat \<times> nat \<Rightarrow> nat \<times> nat" where
  "nearer x c best =
    (let dc = \<bar>int (fst c * 10 ^ snd c) - int x\<bar>;
         db = \<bar>int (fst best * 10 ^ snd best) - int x\<bar>
     in if dc < db \<or> (dc = db \<and> even (fst c) \<and> odd (fst best)) then c else best)"

definition shortest_digits :: "nat \<Rightarrow> (nat \<times> nat) option" where
  "shortest_digits x =
    (case find (\<lambda>k. shortest_candidates x k \<noteq> []) [1..<18] of
       None \<Rightarrow> None
     | Some k \<Rightarrow>
        (case shortest_candidates x k of
           [] \<Rightarrow> None
         | c # cs \<Rightarrow> Some (fold (nearer x) cs c)))"

text \<open>
  Below \<open>2^53\<close> every integer is a double of its own, so the digits that read back as \<open>x\<close>
  are all the digits of \<open>x\<close>. From there on the shortest digits are followed by zeros while
  the number has at most 21 digits, and written with an exponent beyond. (\<open>None\<close> arises
  only for an integer that is not a double.)
\<close>

definition nat_string :: "nat \<Rightarrow> string" where
  "nat_string x =
    (if x < 2 ^ 53 then nat_digits x
     else case shortest_digits x of
            None \<Rightarrow> nat_digits x
          | Some (s, e) \<Rightarrow>
              let ds = nat_digits s; k = length ds; n = k + e
              in if n \<le> 21 then ds @ replicate e (CHR ''0'')
                 else if k = 1 then ds @ ''e+'' @ nat_digits (n - 1)
                 else take 1 ds @ ''.'' @ drop 1 ds @ ''e+'' @ nat_digits (n - 1))"

definition number_string :: "int \<Rightarrow> string" where
  "number_string i = (if i < 0 then CHR ''-'' # nat_string (nat (- i)) else nat_string (nat i))"

definition csv_text :: "CsvValue \<Rightarrow> string" where
  "csv_text v = (case v of CsvString s \<Rightarrow> s | CsvNumber n \<Rightarrow> number_string n)"

text \<open>
  Lines 97-103. The regular expression \<^verbatim>\<open>/[",\r\n]/\<close> tests for a double quote (code
  0x22), a comma, a carriage return (0x0D) or a line feed (0x0A);
  \<^verbatim>\<open>text.replace(/"/g, '""')\<close> doubles every double quote.
\<close>

definition csv_special :: "char \<Rightarrow> bool" where
  "csv_special c = (c = CHR 0x22 \<or> c = CHR '','' \<or> c = CHR 0x0D \<or> c = CHR 0x0A)"

definition double_quotes :: "string \<Rightarrow> string" where
  "double_quotes text = concat (map (\<lambda>c. if c = CHR 0x22 then [CHR 0x22, CHR 0x22] else [c]) text)"

definition formatCsvValue :: "CsvValue \<Rightarrow> string" where
  "formatCsvValue v =
    (let text = csv_text v
     in if \<exists>c \<in> set text. csv_special c
        then [CHR 0x22] @ double_quotes text @ [CHR 0x22]
        else text)"

text \<open>\<^verbatim>\<open>Array.prototype.join\<close> on strings.\<close>

fun join :: "string \<Rightarrow> string list \<Rightarrow> string" where
  "join sep [] = []"
| "join sep [x] = x"
| "join sep (x # y # ys) = x @ sep @ join sep (y # ys)"

text \<open>Lines 105-107; the row separator is carriage return, line feed.\<close>

definition buildCsvContent :: "CsvValue list list \<Rightarrow> string" where
  "buildCsvContent rows =
     join [CHR 0x0D, CHR 0x0A] (map (\<lambda>row. join '','' (map formatCsvValue row)) rows)"

text \<open>
  Lines 90-95. The first \<^verbatim>\<open>replace\<close> deletes the characters
  \<^verbatim>\<open><>:"/\|?*\<close> and the control characters up to 0x1F, the second turns every run of
  whitespace into one underscore, then the result is trimmed.
\<close>

definition filename_unsafe :: "char \<Rightarrow> bool" where
  "filename_unsafe c =
     (c \<in> {CHR ''<'', CHR ''>'', CHR '':'', CHR 0x22, CHR ''/'', CHR 0x5C, CHR ''|'', CHR ''?'', CHR ''*''}
      \<or> (of_char c :: nat) \<le> 0x1F)"

function whitespace_to_underscore :: "string \<Rightarrow> string" where
  "whitespace_to_underscore [] = []"
| "whitespace_to_underscore (c # cs) =
     (if js_whitespace c then CHR ''_'' # whitespace_to_underscore (dropWhile js_whitespace cs)
      else c # whitespace_to_underscore cs)"
  by pat_completeness auto
termination
  by (relation "measure length") (auto simp: less_Suc_eq_le length_dropWhile_le)

definition sanitizeFilenamePart :: "string \<Rightarrow> string" where
  "sanitizeFilenamePart v = trim (whitespace_to_underscore (filter (\<lambda>c. \<not> filename_unsafe c) v))"

text \<open>Lines 109-116; \<^verbatim>\<open>x || d\<close> on strings is \<open>d\<close> for the empty string.\<close>

definition buildSubcategoryExportFilename :: "string \<Rightarrow> string \<Rightarrow> string" where
  "buildSubcategoryExportFilename categoryName subcategoryName =
    (let safeCategory = sanitizeFilenamePart categoryName;
         safeSubcategory = sanitizeFilenamePart subcategoryName;
         baseName = join ''_'' (filter (\<lambda>x. x \<noteq> [])
           [if safeCategory \<noteq> [] then safeCategory else ''category'',
            if safeSubcategory \<noteq> [] then safeSubcategory else ''subcategory'',
            ''stock''])
     in (if baseName \<noteq> [] then baseName else ''subcategory_stock'') @ ''.csv'')"

text \<open>
  Lines 118-130: the file handed to the browser. The text of the blob is a list of code
  units, the byte-order mark U+FEFF (65279) first; it is not a character of \<open>string\<close>.
\<close>

record Download =
  download_name :: string
  blob_text :: "nat list"

definition downloadCsvFile :: "string \<Rightarrow> CsvValue list list \<Rightarrow> Download" where
  "downloadCsvFile filename rows =
     \<lparr> download_name = filename, blob_text = 0xFEFF # map of_char (buildCsvContent rows) \<rparr>"

text \<open>
  Lines 158-170, in the component that receives the products of the selected subcategory
  as \<open>items\<close>. Nothing is downloaded unless a category and a subcategory are selected.
  \<^verbatim>\<open>item.imageUrl || ''\<close> and \<^verbatim>\<open>item.sizes[size] || 0\<close> give the empty string and 0 for
  a missing value.
\<close>

definition handleExportSubcategory ::
  "InventoryItem list \<Rightarrow> string option \<Rightarrow> string option \<Rightarrow> Download option" where
  "handleExportSubcategory items selectedCategoryName selectedSubcategoryName =
    (if \<not> truthy selectedCategoryName \<or> \<not> truthy selectedSubcategoryName then None
     else
       let headerRow = [CsvString ''Name'', CsvString ''Image URL''] @ map (\<lambda>size. CsvString (size_name size)) SIZES;
           dataRows = map (\<lambda>item.
             [CsvString (name item),
              CsvString (case imageUrl item of None \<Rightarrow> [] | Some url \<Rightarrow> url)]
             @ map (\<lambda>size. CsvNumber (case sizes item size of None \<Rightarrow> 0 | Some q \<Rightarrow> q)) SIZES) items;
           filename = buildSubcategoryExportFilename (the selectedCategoryName) (the selectedSubcategoryName)
       in Some (downloadCsvFile filename (headerRow # dataRows)))"

text \<open>Lines 836-838: the products handed to that component.\<close>

definition itemsForProductStockView :: "InventoryItem list \<Rightarrow> ViewState \<Rightarrow> InventoryItem list" where
  "itemsForProductStockView items view =
     filter (\<lambda>item. Some (category item) = selectedCategoryForView view
                  \<and> Some (subcategory item) = selectedSubcategoryForView view) items"

section \<open>Navigation history (lines 74-82, 532-535, 552-616, 879-888, 1029-1050)\<close>

text \<open>
  \<^verbatim>\<open>interface AppHistoryState\<close>. The fields carry the prefix \<open>hs_\<close>; \<open>historyIndex\<close> is
  \<open>None\<close> when \<^verbatim>\<open>typeof state.historyIndex\<close> is not \<^verbatim>\<open>'number'\<close>. A history entry either
  carries the tag \<^verbatim>\<open>__app: 'inventory-app'\<close> or it does not (a \<^verbatim>\<open>null\<close> state, or a state
  of another origin).
\<close>

record AppHistoryState =
  hs_viewMode :: ViewMode
  hs_selectedCategoryForView :: "string option"
  hs_selectedSubcategoryForView :: "string option"
  historyIndex :: "int option"

datatype HistoryEntry = Untagged | Tagged AppHistoryState

text \<open>
  The browser's session history: the current entry, the entries behind it (nearest
  first) and the entries ahead of it (nearest first). \<^verbatim>\<open>pushState\<close> drops the entries
  ahead, \<^verbatim>\<open>replaceState\<close> overwrites the current entry.
\<close>

record BrowserHistory =
  back_entries :: "HistoryEntry list"
  current_entry :: HistoryEntry
  forward_entries :: "HistoryEntry list"

definition pushState :: "HistoryEntry \<Rightarrow> BrowserHistory \<Rightarrow> BrowserHistory" where
  "pushState e h = \<lparr> back_entries = current_entry h # back_entries h, current_entry = e, forward_entries = [] \<rparr>"

definition replaceState :: "HistoryEntry \<Rightarrow> BrowserHistory \<Rightarrow> BrowserHistory" where
  "replaceState e h = h\<lparr> current_entry := e \<rparr>"

text \<open>
  The component state the history code reads and writes: the view state, the four refs of
  lines 532-535 and the browser's history.
\<close>

record App = ViewState +
  isHandlingPopStateRef :: bool
  isInitialHistoryRef :: bool
  historyIndexRef :: int
  hasSeededHistoryRef :: bool
  history :: BrowserHistory

text \<open>Lines 552-558.\<close>

definition buildHistoryState :: "App \<Rightarrow> int \<Rightarrow> HistoryEntry" where
  "buildHistoryState app index =
     Tagged \<lparr> hs_viewMode = viewMode app,
              hs_selectedCategoryForView = selectedCategoryForView app,
              hs_selectedSubcategoryForView = selectedSubcategoryForView app,
              historyIndex = Some index \<rparr>"

text \<open>Lines 561-578: the listener for \<^verbatim>\<open>popstate\<close>, applied to \<^verbatim>\<open>event.state\<close>.\<close>

definition handlePopState :: "HistoryEntry \<Rightarrow> App \<Rightarrow> App" where
  "handlePopState event_state app =
    (case event_state of
       Untagged \<Rightarrow> app
     | Tagged state \<Rightarrow>
         app\<lparr> historyIndexRef := (case historyIndex state of Some i \<Rightarrow> i | None \<Rightarrow> 0),
              isHandlingPopStateRef := True,
              viewMode := hs_viewMode state,
              selectedCategoryForView :=
                (if hs_viewMode state = Stock then hs_selectedCategoryForView state else None),
              selectedSubcategoryForView :=
                (if hs_viewMode state = Stock then hs_selectedSubcategoryForView state else None) \<rparr>)"

text \<open>
  Lines 584-616: the effect that keeps the history in step with the view state. Each
  \<^verbatim>\<open>buildHistoryState\<close> reads the view state of the render the effect belongs to, which the
  effect does not change.
\<close>

definition history_effect :: "App \<Rightarrow> App" where
  "history_effect app =
    (let currentState = current_entry (history app) in
     if isInitialHistoryRef app then
       (let hasAppState = (case currentState of Untagged \<Rightarrow> False | Tagged st \<Rightarrow> historyIndex st \<noteq> None);
            index = (if hasAppState
                     then (case currentState of Untagged \<Rightarrow> 0 | Tagged st \<Rightarrow> the (historyIndex st))
                     else 0);
            app1 = app\<lparr> historyIndexRef := index,
                        history := replaceState (buildHistoryState app index) (history app) \<rparr>;
            app2 = (if \<not> hasSeededHistoryRef app1 \<and> (\<not> hasAppState \<or> historyIndexRef app1 = 0)
                    then app1\<lparr> historyIndexRef := historyIndexRef app1 + 1,
                              history := pushState (buildHistoryState app1 (historyIndexRef app1 + 1)) (history app1),
                              hasSeededHistoryRef := True \<rparr>
                    else if \<not> hasSeededHistoryRef app1
                    then app1\<lparr> hasSeededHistoryRef := True \<rparr>
                    else app1)
        in app2\<lparr> isInitialHistoryRef := False \<rparr>)
     else if isHandlingPopStateRef app then
       app\<lparr> isHandlingPopStateRef := False,
            history := replaceState (buildHistoryState app (historyIndexRef app)) (history app) \<rparr>
     else
       app\<lparr> historyIndexRef := historyIndexRef app + 1,
            history := pushState (buildHistoryState app (historyIndexRef app + 1)) (history app) \<rparr>)"

text \<open>
  The view state as one value, and React's rule for the effect: it runs after the first
  render, and after a later render only when one of its dependencies
  \<^verbatim>\<open>[viewMode, selectedCategoryForView, selectedSubcategoryForView]\<close> has changed. The state
  setters called in one event are applied in one render (\<^verbatim>\<open>createRoot\<close>, line 7). This is
  the production behaviour; the second run of every effect that \<^verbatim>\<open>React.StrictMode\<close> (line
  1614) adds in a development build is left out.
\<close>

definition view_of :: "App \<Rightarrow> ViewState" where
  "view_of app = \<lparr> viewMode = viewMode app,
                   selectedCategoryForView = selectedCategoryForView app,
                   selectedSubcategoryForView = selectedSubcategoryForView app \<rparr>"

definition set_view :: "ViewState \<Rightarrow> App \<Rightarrow> App" where
  "set_view v app = app\<lparr> viewMode := viewMode v,
                         selectedCategoryForView := selectedCategoryForView v,
                         selectedSubcategoryForView := selectedSubcategoryForView v \<rparr>"

definition rerender :: "App \<Rightarrow> App \<Rightarrow> App" where
  "rerender old new = (if view_of new \<noteq> view_of old then history_effect new else new)"

text \<open>The first render of the component on a page whose history is \<open>h\<close> (lines 525-535).\<close>

definition mount :: "BrowserHistory \<Rightarrow> App" where
  "mount h = history_effect
     \<lparr> viewMode = Stock, selectedCategoryForView = None, selectedSubcategoryForView = None,
       isHandlingPopStateRef = False, isInitialHistoryRef = True, historyIndexRef = 0,
       hasSeededHistoryRef = False, history = h \<rparr>"

text \<open>
  A user-driven navigation: an event handler sets the view state to \<open>v\<close>, then the
  component renders again. The handlers of lines 879-888 and 1029-1037 are instances.
\<close>

definition navigate :: "ViewState \<Rightarrow> App \<Rightarrow> App" where
  "navigate v app = rerender app (set_view v app)"

definition toggleViewMode :: "App \<Rightarrow> App" where
  "toggleViewMode app =
     navigate (if viewMode app = Admin
               then \<lparr> viewMode = Stock, selectedCategoryForView = None, selectedSubcategoryForView = None \<rparr>
               else (view_of app)\<lparr> viewMode := Admin \<rparr>) app"

definition handleSelectCategoryForView :: "string \<Rightarrow> App \<Rightarrow> App" where
  "handleSelectCategoryForView categoryName app =
     navigate ((view_of app)\<lparr> selectedCategoryForView := Some categoryName,
                              selectedSubcategoryForView := None \<rparr>) app"

definition handleSelectSubcategoryForView :: "string \<Rightarrow> string \<Rightarrow> App \<Rightarrow> App" where
  "handleSelectSubcategoryForView categoryName subcategoryName app =
     navigate ((view_of app)\<lparr> selectedCategoryForView := Some categoryName,
                              selectedSubcategoryForView := Some subcategoryName \<rparr>) app"

text \<open>
  The browser's own back and forward: the history moves by one entry when there is one,
  the listener receives the state of the entry arrived at, and the component renders
  again.
\<close>

definition native_back :: "App \<Rightarrow> App" where
  "native_back app =
    (case back_entries (history app) of
       [] \<Rightarrow> app
     | e # es \<Rightarrow>
         let moved = app\<lparr> history := \<lparr> back_entries = es, current_entry = e,
                                        forward_entries = current_entry (history app) # forward_entries (history app) \<rparr> \<rparr>
         in rerender moved (handlePopState e moved))"

definition native_forward :: "App \<Rightarrow> App" where
  "native_forward app =
    (case forward_entries (history app) of
       [] \<Rightarrow> app
     | e # es \<Rightarrow>
         let moved = app\<lparr> history := \<lparr> back_entries = current_entry (history app) # back_entries (history app),
                                        current_entry = e, forward_entries = es \<rparr> \<rparr>
         in rerender moved (handlePopState e moved))"

text \<open>Lines 1039-1050: the back button of the stock view.\<close>

definition handleNavigateBackFromStockView :: "App \<Rightarrow> App" where
  "handleNavigateBackFromStockView app =
    (if historyIndexRef app > 0 then native_back app
     else if selectedSubcategoryForView app \<noteq> None \<and> selectedSubcategoryForView app \<noteq> Some []
     then navigate ((view_of app)\<lparr> selectedSubcategoryForView := None \<rparr>) app
     else if selectedCategoryForView app \<noteq> None \<and> selectedCategoryForView app \<noteq> Some []
     then navigate ((view_of app)\<lparr> selectedCategoryForView := None \<rparr>) app
     else app)"

section \<open>The form's record (handleSubmit, lines 1461-1476)\<close>

text \<open>
  \<^verbatim>\<open>interface ItemModalFormData\<close> has the fields of \<open>ProductData\<close>. \<^verbatim>\<open>itemDataForSave\<close> is
  what the form passes to \<^verbatim>\<open>onSave\<close>, which is \<open>handleSaveItem\<close>; \<^verbatim>\<open>editingItemId || ''\<close>
  is the empty id for a new product.
\<close>

definition itemDataForSave :: "ProductData \<Rightarrow> string option \<Rightarrow> InventoryItem" where
  "itemDataForSave formData editingItemId =
    \<lparr> name = trim (name formData),
      sku = trim (sku formData),
      category = category formData,
      subcategory = subcategory formData,
      sizes = sizes formData,
      price = price formData,
      description = Some (case description formData of None \<Rightarrow> [] | Some d \<Rightarrow> trim d),
      imageUrl = Some (case imageUrl formData of None \<Rightarrow> [] | Some url \<Rightarrow> trim url),
      item_id = (case editingItemId of None \<Rightarrow> [] | Some i \<Rightarrow> i) \<rparr>"

section \<open>The store after a write\<close>

text \<open>
  Modelled from the spec: the remote store is an external service, of which the source
  holds only the calls. The spec gives its paths, \<^verbatim>\<open>/categories/{id} -> {name,
  subcategories[]}\<close> and \<^verbatim>\<open>/products/{id} -> {..., sizes:{XS..3XL}, ...}\<close>, and its batch
  write, "a mapping from absolute path to new value or null (delete), applied as one
  call". \<open>category_after categories updates k\<close> is the category stored under the key \<open>k\<close>
  once the batch has been applied to the collection that the list \<open>categories\<close> is the
  snapshot of: a value written at the category's own path replaces it (\<^verbatim>\<open>null\<close> deletes
  it), a list written at its \<^verbatim>\<open>subcategories\<close> path replaces its list and leaves its name.
\<close>

definition category_after ::
  "CategoryDefinition list \<Rightarrow> updates \<Rightarrow> string \<Rightarrow> (string \<times> string list) option" where
  "category_after categories updates k =
     (case map_of updates (category_path k) of
        Some (WCategory n subs) \<Rightarrow> Some (n, subs)
      | Some _ \<Rightarrow> None
      | None \<Rightarrow>
         (case find (\<lambda>c. cat_id c = k) categories of
            None \<Rightarrow> None
          | Some c \<Rightarrow>
             (case map_of updates (category_subcategories_path k) of
                Some (WStringList subs) \<Rightarrow> Some (cat_name c, subs)
              | Some _ \<Rightarrow> Some (cat_name c, [])
              | None \<Rightarrow> Some (cat_name c, subcategories c))))"

text \<open>
  Modelled from the spec: the quantity stored for a product and a size, in the collection
  that the list \<open>items\<close> is the snapshot of, and that quantity once the outcome of a
  handler has reached the store; a \<^verbatim>\<open>set\<close> replaces the value at its own path only.
\<close>

definition stored_quantity :: "InventoryItem list \<Rightarrow> string \<Rightarrow> Size \<Rightarrow> int option" where
  "stored_quantity items pid sz =
     (case find (\<lambda>i. item_id i = pid) items of None \<Rightarrow> None | Some i \<Rightarrow> sizes i sz)"

definition quantity_after :: "InventoryItem list \<Rightarrow> outcome \<Rightarrow> string \<Rightarrow> Size \<Rightarrow> int option" where
  "quantity_after items out pid sz =
     (case out of
        SetAt path (WNumber q) \<Rightarrow>
          if path = product_size_path pid sz then Some q else stored_quantity items pid sz
      | _ \<Rightarrow> stored_quantity items pid sz)"

section \<open>What the specification says of the restored view and of the exported file\<close>

text \<open>
  The view state that the \<^verbatim>\<open>popstate\<close> listener sets for an entry recorded with the view
  state \<open>v\<close>: lines 570-577 keep the selection of a stock view and clear the selection of
  an admin view.
\<close>

definition restored_view :: "ViewState \<Rightarrow> ViewState" where
  "restored_view v =
     (if viewMode v = Stock then v
      else v\<lparr> selectedCategoryForView := None, selectedSubcategoryForView := None \<rparr>)"

text \<open>The tagged entry that \<open>buildHistoryState\<close> makes of a view state and an index.\<close>

definition tagged_entry :: "ViewState \<Rightarrow> int \<Rightarrow> HistoryEntry" where
  "tagged_entry v i =
     Tagged \<lparr> hs_viewMode = viewMode v,
              hs_selectedCategoryForView = selectedCategoryForView v,
              hs_selectedSubcategoryForView = selectedSubcategoryForView v,
              historyIndex = Some i \<rparr>"

text \<open>The view state recorded in a tagged entry.\<close>

definition entry_view :: "AppHistoryState \<Rightarrow> ViewState" where
  "entry_view st =
     \<lparr> viewMode = hs_viewMode st,
       selectedCategoryForView = hs_selectedCategoryForView st,
       selectedSubcategoryForView = hs_selectedSubcategoryForView st \<rparr>"

text \<open>
  The exported text in the words of the specification: a field is wrapped in double
  quotes, its own double quotes doubled, exactly when it contains a comma, a double quote
  or a newline (a carriage return or a line feed); the fields of a row are joined by
  commas and the rows by carriage return, line feed; the header is
  \<^verbatim>\<open>Name,Image URL,XS,S,M,L,XL,XXL,3XL\<close>; the row of a product is its name, its image URL
  (empty when absent) and its quantity for each of the seven sizes, 0 for a missing one,
  each quantity as \<^verbatim>\<open>String\<close> prints the number.
\<close>

fun spec_quotes_doubled :: "string \<Rightarrow> string" where
  "spec_quotes_doubled [] = []"
| "spec_quotes_doubled (c # cs) =
     (if c = CHR 0x22 then CHR 0x22 # CHR 0x22 # spec_quotes_doubled cs
      else c # spec_quotes_doubled cs)"

definition spec_csv_field :: "string \<Rightarrow> string" where
  "spec_csv_field t =
     (if CHR '','' \<in> set t \<or> CHR 0x22 \<in> set t \<or> CHR 0x0D \<in> set t \<or> CHR 0x0A \<in> set t
      then CHR 0x22 # spec_quotes_doubled t @ [CHR 0x22] else t)"

definition spec_quantity :: "InventoryItem \<Rightarrow> Size \<Rightarrow> int" where
  "spec_quantity item sz = (case sizes item sz of None \<Rightarrow> 0 | Some q \<Rightarrow> q)"

definition spec_csv_row :: "InventoryItem \<Rightarrow> string" where
  "spec_csv_row item =
     spec_csv_field (name item) @ '','' @
     spec_csv_field (case imageUrl item of None \<Rightarrow> [] | Some url \<Rightarrow> url) @
     concat (map (\<lambda>sz. '','' @ number_string (spec_quantity item sz)) [XS, S, M, L, XL, XXL, XXXL])"

definition spec_csv_text :: "InventoryItem list \<Rightarrow> string" where
  "spec_csv_text items =
     ''Name,Image URL,XS,S,M,L,XL,XXL,3XL'' @
     concat (map (\<lambda>item. [CHR 0x0D, CHR 0x0A] @ spec_csv_row item) items)"

section \<open>Example data\<close>

text \<open>
  The category and the product of the specification's end-to-end example, the product
  after two sales of size M, and categories named "Uncategorized".
\<close>

definition ex_shoes :: CategoryDefinition where
  "ex_shoes = \<lparr> cat_id = ''c1'', cat_name = ''Shoes'', subcategories = [''Default''] \<rparr>"

definition ex_boots :: CategoryDefinition where
  "ex_boots = \<lparr> cat_id = ''c2'', cat_name = ''Boots'', subcategories = [''Hiking''] \<rparr>"

definition ex_uncategorized_bare :: CategoryDefinition where
  "ex_uncategorized_bare = \<lparr> cat_id = ''u1'', cat_name = ''Uncategorized'', subcategories = [''Misc''] \<rparr>"

definition ex_runner :: InventoryItem where
  "ex_runner = \<lparr> name = ''Runner'', sku = ''SH-1'', category = ''Shoes'', subcategory = ''Default'',
     sizes = [M \<mapsto> 3], price = 50, description = Some [], imageUrl = None, item_id = ''p1'' \<rparr>"

definition ex_runner_sold :: InventoryItem where
  "ex_runner_sold = ex_runner\<lparr> sizes := [M \<mapsto> 1] \<rparr>"

definition ex_hiker :: InventoryItem where
  "ex_hiker = \<lparr> name = ''Hiker'', sku = ''BT-1'', category = ''Boots'', subcategory = ''Hiking'',
     sizes = [L \<mapsto> 2], price = 80, description = None, imageUrl = Some '' http://x/h.png '',
     item_id = ''p2'' \<rparr>"

text \<open>
  A product with \<open>2^54\<close> units of size M and 12 of size S, and a product whose name holds
  double quotes and a comma: \<^verbatim>\<open>Run "fast", v2\<close>.
\<close>

definition ex_bulk :: InventoryItem where
  "ex_bulk = \<lparr> name = ''Bulk'', sku = ''BK-1'', category = ''Shoes'', subcategory = ''Default'',
     sizes = [M \<mapsto> 18014398509481984, S \<mapsto> 12], price = 1, description = None, imageUrl = None,
     item_id = ''p3'' \<rparr>"

definition ex_quoted :: InventoryItem where
  "ex_quoted = \<lparr> name = ''Run '' @ [CHR 0x22] @ ''fast'' @ [CHR 0x22] @ '', v2'', sku = ''SH-2'',
     category = ''Shoes'', subcategory = ''Default'', sizes = [S \<mapsto> 12], price = 60,
     description = None, imageUrl = None, item_id = ''p4'' \<rparr>"

definition ex_view :: ViewState where
  "ex_view = \<lparr> viewMode = Admin, selectedCategoryForView = Some ''Boots'',
     selectedSubcategoryForView = Some ''Hiking'' \<rparr>"

text \<open>
  A page opened on an entry that is not the application's, and the application after
  three navigations on it: a category is selected, the admin view is opened, the stock
  view is opened again.
\<close>

definition ex_history :: BrowserHistory where
  "ex_history = \<lparr> back_entries = [], current_entry = Untagged, forward_entries = [] \<rparr>"

text \<open>
  A page opened behind an entry of another origin, and the application's page loaded
  again in the middle of a history whose next entry is of another origin.
\<close>

definition ex_history_behind :: BrowserHistory where
  "ex_history_behind = \<lparr> back_entries = [Untagged], current_entry = Untagged, forward_entries = [] \<rparr>"

definition ex_history_reload :: BrowserHistory where
  "ex_history_reload =
     \<lparr> back_entries = [],
       current_entry = Tagged \<lparr> hs_viewMode = Stock, hs_selectedCategoryForView = None,
                               hs_selectedSubcategoryForView = None, historyIndex = Some 2 \<rparr>,
       forward_entries = [Untagged] \<rparr>"

definition ex_after_nav1 :: App where
  "ex_after_nav1 = handleSelectCategoryForView ''Shoes'' (mount ex_history)"

definition ex_after_nav2 :: App where
  "ex_after_nav2 = toggleViewMode ex_after_nav1"

definition ex_after_nav3 :: App where
  "ex_after_nav3 = toggleViewMode ex_after_nav2"

section \<open>Lemmas on lists, paths and batches\<close>

lemma find_Some_mem: "find P xs = Some x \<Longrightarrow> x \<in> set xs \<and> P x"
  by (induction xs) (auto split: if_splits)

lemma find_by_distinct_id:
  "distinct (map cat_id cs) \<Longrightarrow> c \<in> set cs \<Longrightarrow> find (\<lambda>d. cat_id d = cat_id c) cs = Some c"
  by (induction cs) (auto simp: image_iff)

lemma set_js_set_acc:
  "set (foldl (\<lambda>acc x. if x \<in> set acc then acc else acc @ [x]) acc xs) = set acc \<union> set xs"
  by (induction xs arbitrary: acc) auto

lemma set_js_set: "set (js_set xs) = set xs"
  by (simp add: js_set_def set_js_set_acc)

lemma set_add_default: "set (add_default subs) = insert ''Default'' (set subs)"
  by (simp add: add_default_def set_js_set)

lemma suffix_category_neq_subcategory: "a @ ''/category'' \<noteq> b @ ''/subcategory''"
proof
  assume "a @ ''/category'' = b @ ''/subcategory''"
  then have "rev (a @ ''/category'') = rev (b @ ''/subcategory'')" by (rule arg_cong)
  then show False by simp
qed

lemma product_category_neq_subcategory [simp]:
  "product_category_path a \<noteq> product_subcategory_path b"
  "product_subcategory_path b \<noteq> product_category_path a"
  using suffix_category_neq_subcategory[of a b]
  by (auto simp: product_category_path_def product_subcategory_path_def)

lemma category_neq_product [simp]:
  "category_path a \<noteq> product_path b"
  "category_path a \<noteq> product_category_path b"
  "category_path a \<noteq> product_subcategory_path b"
  "category_subcategories_path a \<noteq> product_path b"
  "category_subcategories_path a \<noteq> product_category_path b"
  "category_subcategories_path a \<noteq> product_subcategory_path b"
  "product_path b \<noteq> category_path a"
  "product_category_path b \<noteq> category_path a"
  "product_subcategory_path b \<noteq> category_path a"
  "product_path b \<noteq> category_subcategories_path a"
  "product_category_path b \<noteq> category_subcategories_path a"
  "product_subcategory_path b \<noteq> category_subcategories_path a"
  by (simp_all add: category_path_def category_subcategories_path_def product_path_def
        product_category_path_def product_subcategory_path_def)

lemma path_inject [simp]:
  "category_path a = category_path b \<longleftrightarrow> a = b"
  "category_subcategories_path a = category_subcategories_path b \<longleftrightarrow> a = b"
  "product_path a = product_path b \<longleftrightarrow> a = b"
  "product_category_path a = product_category_path b \<longleftrightarrow> a = b"
  "product_subcategory_path a = product_subcategory_path b \<longleftrightarrow> a = b"
  by (simp_all add: category_path_def category_subcategories_path_def product_path_def
        product_category_path_def product_subcategory_path_def)

lemma category_path_neq_own_subcategories [simp]:
  "category_path a \<noteq> category_subcategories_path a"
  "category_subcategories_path a \<noteq> category_path a"
  by (simp_all add: category_path_def category_subcategories_path_def)

lemma no_slash_category_path:
  "CHR ''/'' \<notin> set a \<Longrightarrow> category_path a \<noteq> category_subcategories_path b"
  by (auto simp: category_path_def category_subcategories_path_def)

lemma product_size_path_inject:
  "product_size_path a x = product_size_path b y \<longleftrightarrow> a = b \<and> x = y"
proof
  assume "product_size_path a x = product_size_path b y"
  then have "a @ ''/sizes/'' @ size_name x = b @ ''/sizes/'' @ size_name y"
    by (simp add: product_size_path_def)
  then have "rev (a @ ''/sizes/'' @ size_name x) = rev (b @ ''/sizes/'' @ size_name y)"
    by (rule arg_cong)
  then show "a = b \<and> x = y"
    by (cases x; cases y; simp)
qed auto

lemma map_of_fold_update2:
  assumes "\<And>i j. f i \<noteq> g j"
  shows "map_of (fold (\<lambda>item u. AList.update (g item) b (AList.update (f item) a u)) its u) p =
     (if p \<in> f ` set its then Some a else if p \<in> g ` set its then Some b else map_of u p)"
proof (induction its arbitrary: u)
  case Nil
  then show ?case by simp
next
  case (Cons i its)
  show ?case using assms assms[THEN not_sym]
    by (auto simp: Cons.IH AList.update_conv')
qed

lemma map_of_fold_update1:
  "map_of (fold (\<lambda>item u. AList.update (g item) b u) its u) p =
     (if p \<in> g ` set its then Some b else map_of u p)"
  by (induction its arbitrary: u) (auto simp: AList.update_conv')

lemma fold_nonempty_guard: "(if xs \<noteq> [] then fold f xs [] else []) = fold f xs []"
  by (cases xs) simp_all

section \<open>Saving a product: C1, C5, C10\<close>

lemma validate_item_unknown_category:
  assumes "find (\<lambda>c. cat_name c = category item) categories = None"
    and "find (\<lambda>c. cat_name c = ''Uncategorized'') categories = None \<longrightarrow> truthy newUncatKey"
  shows "\<exists>u. validate_item categories newUncatKey item = Inr (''Uncategorized'', ''Default'', u)
     \<and> map_of u =
          (case find (\<lambda>c. cat_name c = ''Uncategorized'') categories of
             None \<Rightarrow> [category_path (the newUncatKey) \<mapsto> WCategory ''Uncategorized'' [''Default'']]
           | Some c \<Rightarrow> if ''Default'' \<notin> set (subcategories c)
                then [category_subcategories_path (cat_id c) \<mapsto> WStringList (add_default (subcategories c))]
                else Map.empty)"
  using assms by (simp add: validate_item_def split: option.splits)

lemma validate_item_valid:
  assumes "find (\<lambda>c. cat_name c = category item) categories = Some c"
    and "subcategory item \<in> set (subcategories c)"
  shows "validate_item categories newUncatKey item = Inr (category item, subcategory item, [])"
  using assms by (simp add: validate_item_def)

lemma validate_item_total:
  assumes "find (\<lambda>c. cat_name c = category item) categories = None
           \<and> find (\<lambda>c. cat_name c = ''Uncategorized'') categories = None \<longrightarrow> truthy newUncatKey"
  shows "\<exists>vc vs u. validate_item categories newUncatKey item = Inr (vc, vs, u)
           \<and> (\<forall>k. map_of u (product_path k) = None)
           \<and> (\<forall>path q. map_of u path \<noteq> Some (WProduct q))"
  using assms by (auto simp: validate_item_def split: option.splits)

lemma handleSaveItem_Inr:
  assumes "validate_item categories newUncatKey item = Inr (vc, vs, u)"
    and "item_id item = [] \<longrightarrow> truthy newItemKey"
  shows "handleSaveItem categories newUncatKey newItemKey (Some item) =
     Update (AList.update (product_path (if item_id item \<noteq> [] then item_id item else the newItemKey))
               (WProduct (finalItemData vc vs item)) u)"
  using assms by (simp add: handleSaveItem_def)

text \<open>
  C1. A product whose category is not in the current category list is written with
  category "Uncategorized" and subcategory "Default"; the same batch creates an
  "Uncategorized" category with subcategories ["Default"] when the list has none, or
  writes the existing one's subcategory list with "Default" added when it lacks it; and
  after the batch the category collection holds an "Uncategorized" entry whose
  subcategories include "Default". The list is a snapshot of the store, so its ids are
  distinct, and \<^verbatim>\<open>push\<close> delivers the keys the handler asks for.
\<close>

theorem save_item_unknown_category:
  assumes absent: "category item \<notin> cat_name ` set categories"
    and ids: "distinct (map cat_id categories)"
    and k1: "find (\<lambda>c. cat_name c = ''Uncategorized'') categories = None \<longrightarrow> truthy newUncatKey"
    and k2: "item_id item = [] \<longrightarrow> truthy newItemKey"
  shows "\<exists>u p. handleSaveItem categories newUncatKey newItemKey (Some item) = Update u
      \<and> map_of u (product_path (if item_id item \<noteq> [] then item_id item else the newItemKey))
            = Some (WProduct p)
      \<and> category p = ''Uncategorized'' \<and> subcategory p = ''Default''
      \<and> (case find (\<lambda>c. cat_name c = ''Uncategorized'') categories of
            None \<Rightarrow> map_of u (category_path (the newUncatKey))
                      = Some (WCategory ''Uncategorized'' [''Default''])
          | Some c \<Rightarrow> ''Default'' \<notin> set (subcategories c) \<longrightarrow>
                map_of u (category_subcategories_path (cat_id c))
                  = Some (WStringList (add_default (subcategories c)))
              \<and> set (add_default (subcategories c)) = insert ''Default'' (set (subcategories c)))
      \<and> (\<exists>k subs. category_after categories u k = Some (''Uncategorized'', subs)
                   \<and> ''Default'' \<in> set subs)"
proof -
  let ?pid = "if item_id item \<noteq> [] then item_id item else the newItemKey"
  let ?p = "finalItemData ''Uncategorized'' ''Default'' item"
  have nf: "find (\<lambda>c. cat_name c = category item) categories = None"
    using absent by (force simp: find_None_iff)
  obtain u0 where v: "validate_item categories newUncatKey item = Inr (''Uncategorized'', ''Default'', u0)"
    and m0: "map_of u0 =
          (case find (\<lambda>c. cat_name c = ''Uncategorized'') categories of
             None \<Rightarrow> [category_path (the newUncatKey) \<mapsto> WCategory ''Uncategorized'' [''Default'']]
           | Some c \<Rightarrow> if ''Default'' \<notin> set (subcategories c)
                then [category_subcategories_path (cat_id c) \<mapsto> WStringList (add_default (subcategories c))]
                else Map.empty)"
    using validate_item_unknown_category[OF nf k1] by blast
  define u where "u = AList.update (product_path ?pid) (WProduct ?p) u0"
  have out: "handleSaveItem categories newUncatKey newItemKey (Some item) = Update u"
    unfolding u_def by (rule handleSaveItem_Inr[OF v k2])
  have m: "map_of u = (map_of u0)(product_path ?pid \<mapsto> WProduct ?p)"
    unfolding u_def by (rule AList.update_conv')
  have prod: "map_of u (product_path ?pid) = Some (WProduct ?p)"
    by (simp add: m)
  have cs: "category ?p = ''Uncategorized'' \<and> subcategory ?p = ''Default''"
    by (simp add: finalItemData_def)
  have repair: "(case find (\<lambda>c. cat_name c = ''Uncategorized'') categories of
            None \<Rightarrow> map_of u (category_path (the newUncatKey))
                      = Some (WCategory ''Uncategorized'' [''Default''])
          | Some c \<Rightarrow> ''Default'' \<notin> set (subcategories c) \<longrightarrow>
                map_of u (category_subcategories_path (cat_id c))
                  = Some (WStringList (add_default (subcategories c)))
              \<and> set (add_default (subcategories c)) = insert ''Default'' (set (subcategories c)))"
    by (simp add: m m0 set_add_default split: option.splits)
  have after: "\<exists>k subs. category_after categories u k = Some (''Uncategorized'', subs)
                   \<and> ''Default'' \<in> set subs"
  proof (cases "find (\<lambda>c. cat_name c = ''Uncategorized'') categories")
    case None
    then have "category_after categories u (the newUncatKey) = Some (''Uncategorized'', [''Default''])"
      by (simp add: category_after_def m m0)
    then show ?thesis
      by (intro exI[of _ "the newUncatKey"] exI[of _ "[''Default'']"]) simp
  next
    case (Some c)
    have cin: "c \<in> set categories" and cn: "cat_name c = ''Uncategorized''"
      using find_Some_mem[OF Some] by auto
    have fid: "find (\<lambda>d. cat_id d = cat_id c) categories = Some c"
      using find_by_distinct_id[OF ids cin] .
    have "category_after categories u (cat_id c) =
            Some (''Uncategorized'', if ''Default'' \<notin> set (subcategories c)
                                      then add_default (subcategories c) else subcategories c)"
      using fid cn by (simp add: category_after_def m m0 Some)
    then show ?thesis
      by (intro exI[of _ "cat_id c"]
            exI[of _ "if ''Default'' \<notin> set (subcategories c)
                      then add_default (subcategories c) else subcategories c"])
         (simp add: set_add_default)
  qed
  from out prod cs repair after show ?thesis by blast
qed

theorem save_item_unknown_category_witness:
  "(\<exists>u p. handleSaveItem [] (Some ''k1'') None (Some ex_runner) = Update u
      \<and> map_of u (product_path ''p1'') = Some (WProduct p)
      \<and> category p = ''Uncategorized'' \<and> subcategory p = ''Default''
      \<and> map_of u (category_path ''k1'') = Some (WCategory ''Uncategorized'' [''Default''])
      \<and> (\<exists>k subs. category_after [] u k = Some (''Uncategorized'', subs) \<and> ''Default'' \<in> set subs))
   \<and> (\<exists>u p. handleSaveItem [ex_uncategorized_bare] None None (Some ex_runner) = Update u
      \<and> map_of u (product_path ''p1'') = Some (WProduct p)
      \<and> category p = ''Uncategorized'' \<and> subcategory p = ''Default''
      \<and> map_of u (category_subcategories_path ''u1'') = Some (WStringList (add_default [''Misc'']))
      \<and> set (add_default [''Misc'']) = {''Default'', ''Misc''}
      \<and> (\<exists>k subs. category_after [ex_uncategorized_bare] u k = Some (''Uncategorized'', subs)
                   \<and> ''Default'' \<in> set subs))"
proof -
  have absent: "category ex_runner \<notin> cat_name ` set []"
    "category ex_runner \<notin> cat_name ` set [ex_uncategorized_bare]"
    by (simp_all add: ex_runner_def ex_uncategorized_bare_def)
  have ids: "distinct (map cat_id [])" "distinct (map cat_id [ex_uncategorized_bare])"
    by simp_all
  have k1: "find (\<lambda>c. cat_name c = ''Uncategorized'') [] = None \<longrightarrow> truthy (Some ''k1'')"
    "find (\<lambda>c. cat_name c = ''Uncategorized'') [ex_uncategorized_bare] = None \<longrightarrow> truthy None"
    by (simp_all add: truthy_def ex_uncategorized_bare_def)
  have k2: "item_id ex_runner = [] \<longrightarrow> truthy None"
    by (simp add: ex_runner_def)
  have a: "\<exists>u p. handleSaveItem [] (Some ''k1'') None (Some ex_runner) = Update u
      \<and> map_of u (product_path ''p1'') = Some (WProduct p)
      \<and> category p = ''Uncategorized'' \<and> subcategory p = ''Default''
      \<and> map_of u (category_path ''k1'') = Some (WCategory ''Uncategorized'' [''Default''])
      \<and> (\<exists>k subs. category_after [] u k = Some (''Uncategorized'', subs) \<and> ''Default'' \<in> set subs)"
    using save_item_unknown_category[OF absent(1) ids(1) k1(1) k2]
    by (simp add: ex_runner_def)
  have b: "\<exists>u p. handleSaveItem [ex_uncategorized_bare] None None (Some ex_runner) = Update u
      \<and> map_of u (product_path ''p1'') = Some (WProduct p)
      \<and> category p = ''Uncategorized'' \<and> subcategory p = ''Default''
      \<and> map_of u (category_subcategories_path ''u1'') = Some (WStringList (add_default [''Misc'']))
      \<and> set (add_default [''Misc'']) = {''Default'', ''Misc''}
      \<and> (\<exists>k subs. category_after [ex_uncategorized_bare] u k = Some (''Uncategorized'', subs)
                   \<and> ''Default'' \<in> set subs)"
    using save_item_unknown_category[OF absent(2) ids(2) k1(2) k2]
    by (simp add: ex_runner_def ex_uncategorized_bare_def)
  from a b show ?thesis ..
qed

text \<open>
  C5, as the code has it. For a product whose category is found by name and contains the
  product's subcategory, the save operation schedules no category write: its batch is
  exactly one write, the product's own record at the product's path, with the category
  and subcategory of the input. (The claim says the batch is empty; the product itself is
  always written.)
\<close>

theorem save_valid_item_writes_only_product:
  assumes "find (\<lambda>c. cat_name c = category item) categories = Some c"
    and "subcategory item \<in> set (subcategories c)"
    and "item_id item = [] \<longrightarrow> truthy newItemKey"
  shows "\<exists>p. handleSaveItem categories newUncatKey newItemKey (Some item) =
           Update [(product_path (if item_id item \<noteq> [] then item_id item else the newItemKey),
                    WProduct p)]
         \<and> category p = category item \<and> subcategory p = subcategory item"
  using handleSaveItem_Inr[OF validate_item_valid[OF assms(1,2)] assms(3)]
  by (simp add: finalItemData_def)

theorem save_valid_item_writes_only_product_witness:
  "\<exists>p. handleSaveItem [ex_shoes] None None (Some ex_runner) = Update [(product_path ''p1'', WProduct p)]
       \<and> category p = ''Shoes'' \<and> subcategory p = ''Default''"
proof -
  have 1: "find (\<lambda>c. cat_name c = category ex_runner) [ex_shoes] = Some ex_shoes"
    by (simp add: ex_runner_def ex_shoes_def)
  have 2: "subcategory ex_runner \<in> set (subcategories ex_shoes)"
    by (simp add: ex_runner_def ex_shoes_def)
  have 3: "item_id ex_runner = [] \<longrightarrow> truthy None"
    by (simp add: ex_runner_def)
  show ?thesis
    using save_valid_item_writes_only_product[OF 1 2 3, of None]
    by (simp add: ex_runner_def)
qed

text \<open>
  The claim C5 as it is written fails: saving the valid product of the example against
  the category list of the example issues a batch, and the batch is not empty.
\<close>

theorem save_valid_item_counterexample:
  "handleSaveItem [ex_shoes] None None (Some ex_runner) =
     Update [(product_path ''p1'', WProduct (finalItemData ''Shoes'' ''Default'' ex_runner))]
   \<and> handleSaveItem [ex_shoes] None None (Some ex_runner) \<noteq> NoWrite
   \<and> handleSaveItem [ex_shoes] None None (Some ex_runner) \<noteq> Update []"
  by (simp add: handleSaveItem_def validate_item_def ex_shoes_def ex_runner_def)

text \<open>
  C10. Whatever the category list, the record written for the saved product has the
  name, sku, sizes, price and description of the input; its image URL is the input's
  trimmed, the empty string when absent; and no other product is written in the batch.
  Only category and subcategory can differ from the input.
\<close>

theorem save_item_preserves_fields:
  assumes k1: "find (\<lambda>c. cat_name c = category item) categories = None
               \<and> find (\<lambda>c. cat_name c = ''Uncategorized'') categories = None \<longrightarrow> truthy newUncatKey"
    and k2: "item_id item = [] \<longrightarrow> truthy newItemKey"
  shows "\<exists>u p. handleSaveItem categories newUncatKey newItemKey (Some item) = Update u
      \<and> map_of u (product_path (if item_id item \<noteq> [] then item_id item else the newItemKey))
            = Some (WProduct p)
      \<and> name p = name item \<and> sku p = sku item \<and> sizes p = sizes item \<and> price p = price item
      \<and> description p = description item
      \<and> imageUrl p = Some (case imageUrl item of None \<Rightarrow> [] | Some url \<Rightarrow> trim url)
      \<and> (\<forall>path q. map_of u path = Some (WProduct q) \<longrightarrow>
            path = product_path (if item_id item \<noteq> [] then item_id item else the newItemKey) \<and> q = p)"
proof -
  let ?pid = "if item_id item \<noteq> [] then item_id item else the newItemKey"
  obtain vc vs u0 where v: "validate_item categories newUncatKey item = Inr (vc, vs, u0)"
    and noprod: "\<forall>path q. map_of u0 path \<noteq> Some (WProduct q)"
    using validate_item_total[OF k1] by blast
  define u where "u = AList.update (product_path ?pid) (WProduct (finalItemData vc vs item)) u0"
  have out: "handleSaveItem categories newUncatKey newItemKey (Some item) = Update u"
    unfolding u_def by (rule handleSaveItem_Inr[OF v k2])
  have m: "map_of u = (map_of u0)(product_path ?pid \<mapsto> WProduct (finalItemData vc vs item))"
    unfolding u_def by (rule AList.update_conv')
  have prod: "map_of u (product_path ?pid) = Some (WProduct (finalItemData vc vs item))"
    by (simp add: m)
  have only: "\<forall>path q. map_of u path = Some (WProduct q) \<longrightarrow>
            path = product_path ?pid \<and> q = finalItemData vc vs item"
    using noprod by (auto simp: m split: if_splits)
  have fields: "name (finalItemData vc vs item) = name item"
    "sku (finalItemData vc vs item) = sku item"
    "sizes (finalItemData vc vs item) = sizes item"
    "price (finalItemData vc vs item) = price item"
    "description (finalItemData vc vs item) = description item"
    "imageUrl (finalItemData vc vs item) = Some (case imageUrl item of None \<Rightarrow> [] | Some url \<Rightarrow> trim url)"
    by (simp_all add: finalItemData_def)
  from out prod only fields show ?thesis by blast
qed

theorem save_item_preserves_fields_witness:
  "\<exists>u p. handleSaveItem [ex_shoes] (Some ''k1'') None (Some ex_hiker) = Update u
      \<and> map_of u (product_path ''p2'') = Some (WProduct p)
      \<and> name p = ''Hiker'' \<and> sku p = ''BT-1'' \<and> sizes p = [L \<mapsto> 2] \<and> price p = 80
      \<and> description p = None
      \<and> imageUrl p = Some (trim '' http://x/h.png '')
      \<and> (\<forall>path q. map_of u path = Some (WProduct q) \<longrightarrow> path = product_path ''p2'' \<and> q = p)"
proof -
  have k1: "find (\<lambda>c. cat_name c = category ex_hiker) [ex_shoes] = None
               \<and> find (\<lambda>c. cat_name c = ''Uncategorized'') [ex_shoes] = None \<longrightarrow> truthy (Some ''k1'')"
    by (simp add: truthy_def)
  have k2: "item_id ex_hiker = [] \<longrightarrow> truthy None"
    by (simp add: ex_hiker_def)
  show ?thesis
    using save_item_preserves_fields[OF k1 k2]
    by (simp add: ex_hiker_def)
qed

text \<open>
  The record of the form reaches the save operation with name and sku trimmed, so the
  name and sku written are the trimmed ones of the form.
\<close>

lemma form_item_trimmed:
  "name (itemDataForSave formData editingItemId) = trim (name formData)
   \<and> sku (itemDataForSave formData editingItemId) = trim (sku formData)
   \<and> sizes (itemDataForSave formData editingItemId) = sizes formData
   \<and> price (itemDataForSave formData editingItemId) = price formData"
  by (simp add: itemDataForSave_def)

section \<open>Deleting a category: C2\<close>

lemma delete_category_updates_Inr:
  assumes "find (\<lambda>c. cat_name c = ''Uncategorized'') categories = None \<longrightarrow> truthy key"
  shows "\<exists>u. delete_category_updates categories items key cid cname = Inr u"
  using assms by (auto simp: delete_category_updates_def Let_def split: option.splits)

lemma map_of_delete_category_updates:
  assumes "delete_category_updates categories items key cid cname = Inr u"
  shows "map_of u p =
   (if p = category_path cid then Some WNull
    else if p \<in> product_subcategory_path ` item_id ` {i \<in> set items. category i = cname}
    then Some (WString ''Default'')
    else if p \<in> product_category_path ` item_id ` {i \<in> set items. category i = cname}
    then Some (WString ''Uncategorized'')
    else (case find (\<lambda>c. cat_name c = ''Uncategorized'') categories of
            None \<Rightarrow> if p = category_path (the key)
                    then Some (WCategory ''Uncategorized'' [''Default'']) else None
          | Some c \<Rightarrow> if ''Default'' \<notin> set (subcategories c) \<and> p = category_subcategories_path (cat_id c)
                      then Some (WStringList (add_default (subcategories c))) else None))"
proof -
  define u0 where "u0 = (case find (\<lambda>c. cat_name c = ''Uncategorized'') categories of
       None \<Rightarrow> AList.update (category_path (the key)) (WCategory ''Uncategorized'' [''Default'']) []
     | Some c \<Rightarrow> if ''Default'' \<notin> set (subcategories c)
         then AList.update (category_subcategories_path (cat_id c))
                (WStringList (add_default (subcategories c))) []
         else [])"
  have u: "u = AList.update (category_path cid) WNull
             (fold (\<lambda>item u. AList.update (product_subcategory_path (item_id item)) (WString ''Default'')
                     (AList.update (product_category_path (item_id item)) (WString ''Uncategorized'') u))
                (filter (\<lambda>item. category item = cname) items) u0)"
    using assms unfolding delete_category_updates_def Let_def u0_def
    by (auto split: option.splits if_splits)
  have u0: "map_of u0 p = (case find (\<lambda>c. cat_name c = ''Uncategorized'') categories of
            None \<Rightarrow> if p = category_path (the key)
                    then Some (WCategory ''Uncategorized'' [''Default'']) else None
          | Some c \<Rightarrow> if ''Default'' \<notin> set (subcategories c) \<and> p = category_subcategories_path (cat_id c)
                      then Some (WStringList (add_default (subcategories c))) else None)"
    unfolding u0_def by (simp add: AList.update_conv' split: option.splits)
  show ?thesis
    unfolding u
    by (auto simp add: AList.update_conv' map_of_fold_update2 image_image u0)
qed

text \<open>
  C2. Deleting a category whose name is not "Uncategorized" issues one batch. The batch
  sets category "Uncategorized" and subcategory "Default" on every product whose category
  is that name, writes \<^verbatim>\<open>null\<close> at the category's path, and creates the "Uncategorized"
  category when the list has none, or writes its subcategory list with "Default" added
  when it lacks it. Called with the name "Uncategorized", the operation returns without
  a write and leaves the view state as it is. The category's id is a key of the store
  (not empty, no slash), and a key pushed for a new category is a fresh one.
\<close>

theorem delete_category_reassigns:
  assumes name: "categoryName \<noteq> ''Uncategorized''"
    and cid: "categoryId \<noteq> []" "CHR ''/'' \<notin> set categoryId"
    and key: "find (\<lambda>c. cat_name c = ''Uncategorized'') categories = None \<longrightarrow>
                truthy newUncatRefKey \<and> the newUncatRefKey \<noteq> categoryId"
  shows "(\<exists>u. fst (handleDeleteCategory categories items view newUncatRefKey accepted
                  categoryId categoryName) = Update u
     \<and> (\<forall>item\<in>set items. category item = categoryName \<longrightarrow>
           map_of u (product_category_path (item_id item)) = Some (WString ''Uncategorized'')
         \<and> map_of u (product_subcategory_path (item_id item)) = Some (WString ''Default''))
     \<and> map_of u (category_path categoryId) = Some WNull
     \<and> (case find (\<lambda>c. cat_name c = ''Uncategorized'') categories of
           None \<Rightarrow> map_of u (category_path (the newUncatRefKey))
                     = Some (WCategory ''Uncategorized'' [''Default''])
         | Some c \<Rightarrow> ''Default'' \<notin> set (subcategories c) \<longrightarrow>
             map_of u (category_subcategories_path (cat_id c))
               = Some (WStringList (add_default (subcategories c)))
             \<and> ''Default'' \<in> set (add_default (subcategories c))))
   \<and> handleDeleteCategory categories' items' view' key' accepted' categoryId' ''Uncategorized''
       = (NoWrite, view')"
proof -
  obtain u where u: "delete_category_updates categories items newUncatRefKey categoryId categoryName = Inr u"
    using delete_category_updates_Inr[of categories newUncatRefKey items categoryId categoryName] key
    by blast
  note m = map_of_delete_category_updates[OF u]
  have out: "fst (handleDeleteCategory categories items view newUncatRefKey accepted
                    categoryId categoryName) = Update u"
    using name cid(1) u by (simp add: handleDeleteCategory_def)
  have prods: "\<forall>item\<in>set items. category item = categoryName \<longrightarrow>
           map_of u (product_category_path (item_id item)) = Some (WString ''Uncategorized'')
         \<and> map_of u (product_subcategory_path (item_id item)) = Some (WString ''Default'')"
    by (auto simp: m)
  have del: "map_of u (category_path categoryId) = Some WNull"
    by (simp add: m)
  have repair: "(case find (\<lambda>c. cat_name c = ''Uncategorized'') categories of
           None \<Rightarrow> map_of u (category_path (the newUncatRefKey))
                     = Some (WCategory ''Uncategorized'' [''Default''])
         | Some c \<Rightarrow> ''Default'' \<notin> set (subcategories c) \<longrightarrow>
             map_of u (category_subcategories_path (cat_id c))
               = Some (WStringList (add_default (subcategories c)))
             \<and> ''Default'' \<in> set (add_default (subcategories c)))"
  proof (cases "find (\<lambda>c. cat_name c = ''Uncategorized'') categories")
    case None
    then show ?thesis using key by (auto simp: m)
  next
    case (Some c)
    then show ?thesis
      using no_slash_category_path[OF cid(2), of "cat_id c"]
      by (auto simp: m set_add_default)
  qed
  have guard: "handleDeleteCategory categories' items' view' key' accepted' categoryId' ''Uncategorized''
                 = (NoWrite, view')"
    by (simp add: handleDeleteCategory_def)
  from out prods del repair guard show ?thesis by blast
qed

theorem delete_category_reassigns_witness:
  "(\<exists>u. fst (handleDeleteCategory [ex_shoes, ex_boots] [ex_runner, ex_hiker] ex_view (Some ''k9'') True
                ''c2'' ''Boots'') = Update u
     \<and> map_of u (product_category_path ''p2'') = Some (WString ''Uncategorized'')
     \<and> map_of u (product_subcategory_path ''p2'') = Some (WString ''Default'')
     \<and> map_of u (category_path ''c2'') = Some WNull
     \<and> map_of u (category_path ''k9'') = Some (WCategory ''Uncategorized'' [''Default'']))
   \<and> handleDeleteCategory [ex_shoes, ex_boots] [ex_runner, ex_hiker] ex_view (Some ''k9'') True
       ''c2'' ''Uncategorized'' = (NoWrite, ex_view)"
proof -
  have 1: "''Boots'' \<noteq> ''Uncategorized''" by simp
  have 2: "''c2'' \<noteq> []" "CHR ''/'' \<notin> set ''c2''" by simp_all
  have 3: "find (\<lambda>c. cat_name c = ''Uncategorized'') [ex_shoes, ex_boots] = None \<longrightarrow>
             truthy (Some ''k9'') \<and> the (Some ''k9'') \<noteq> ''c2''"
    by (simp add: truthy_def)
  show ?thesis
    using delete_category_reassigns[OF 1 2 3, of "[ex_runner, ex_hiker]" ex_view True
            "[ex_shoes, ex_boots]" "[ex_runner, ex_hiker]" ex_view "Some ''k9''" True "''c2''"]
    by (simp add: ex_shoes_def ex_boots_def ex_runner_def ex_hiker_def)
qed

section \<open>Deleting a subcategory: C3, C6\<close>

lemma map_of_delete_subcategory_updates_products:
  assumes "p \<noteq> category_subcategories_path cid"
  shows "map_of (delete_subcategory_updates parent items cid cname sname) p =
    (if p \<in> product_subcategory_path ` item_id ` {i \<in> set items. category i = cname \<and> subcategory i = sname}
     then Some (WString ''Default'') else None)"
  using assms
  by (simp add: delete_subcategory_updates_def Let_def fold_nonempty_guard AList.update_conv'
        map_of_fold_update1 image_image)

lemma map_of_delete_subcategory_updates_list:
  assumes "cname \<noteq> ''Uncategorized''"
  shows "map_of (delete_subcategory_updates parent items cid cname sname) (category_subcategories_path cid) =
    Some (WStringList (updatedSubcategories parent items cname sname))
    \<and> updatedSubcategories parent items cname sname \<noteq> []"
proof -
  have ne: "updatedSubcategories parent items cname sname \<noteq> []"
    using assms by (simp add: updatedSubcategories_def Let_def)
  then show ?thesis
    using assms by (simp add: delete_subcategory_updates_def Let_def AList.update_conv')
qed

lemma updatedSubcategories_only:
  assumes "cname \<noteq> ''Uncategorized''" "subcategories parent = [sname]"
  shows "updatedSubcategories parent items cname sname = [''Default'']"
  using assms by (simp add: updatedSubcategories_def Let_def)

text \<open>
  C3. Let C be the category found under its id, and S a subcategory whose deletion is not
  one of the rejected cases. Deleting S issues one batch that writes subcategory
  "Default" on every product whose category is C's name and whose subcategory is S. When
  C is not "Uncategorized", the batch writes a list at C's subcategories path, this list
  is not empty, and it is exactly ["Default"] when S was C's only subcategory.
\<close>

theorem delete_subcategory_reassigns:
  assumes found: "find (\<lambda>c. cat_id c = cat_id C) categories = Some C"
    and cid: "cat_id C \<noteq> []"
    and not_fallback: "\<not> (cat_name C = ''Uncategorized'' \<and> subcategoryName = ''Default'')"
    and not_sole_default: "\<not> (subcategoryName = ''Default'' \<and> length (subcategories C) = 1
                             \<and> cat_name C \<noteq> ''Uncategorized'')"
  shows "\<exists>u. fst (handleDeleteSubcategory categories items view accepted
                    (cat_id C) (cat_name C) subcategoryName) = Update u
     \<and> (\<forall>item\<in>set items. category item = cat_name C \<and> subcategory item = subcategoryName \<longrightarrow>
           map_of u (product_subcategory_path (item_id item)) = Some (WString ''Default''))
     \<and> (cat_name C \<noteq> ''Uncategorized'' \<longrightarrow>
          (\<exists>subs. map_of u (category_subcategories_path (cat_id C)) = Some (WStringList subs)
              \<and> subs \<noteq> []
              \<and> (subcategories C = [subcategoryName] \<longrightarrow> subs = [''Default''])))"
proof -
  let ?u = "delete_subcategory_updates C items (cat_id C) (cat_name C) subcategoryName"
  let ?subs = "updatedSubcategories C items (cat_name C) subcategoryName"
  have out: "fst (handleDeleteSubcategory categories items view accepted
                    (cat_id C) (cat_name C) subcategoryName) = Update ?u"
    using found cid not_fallback not_sole_default
    by (simp add: handleDeleteSubcategory_def)
  have prods: "\<forall>item\<in>set items. category item = cat_name C \<and> subcategory item = subcategoryName \<longrightarrow>
           map_of ?u (product_subcategory_path (item_id item)) = Some (WString ''Default'')"
    by (auto simp: map_of_delete_subcategory_updates_products)
  have list: "cat_name C \<noteq> ''Uncategorized'' \<longrightarrow>
          map_of ?u (category_subcategories_path (cat_id C)) = Some (WStringList ?subs)
              \<and> ?subs \<noteq> []
              \<and> (subcategories C = [subcategoryName] \<longrightarrow> ?subs = [''Default''])"
    using map_of_delete_subcategory_updates_list[of "cat_name C" C items "cat_id C" subcategoryName]
      updatedSubcategories_only[of "cat_name C" C subcategoryName items]
    by blast
  from out prods list show ?thesis by blast
qed

theorem delete_subcategory_reassigns_witness:
  "\<exists>u. fst (handleDeleteSubcategory [ex_shoes, ex_boots] [ex_runner, ex_hiker] ex_view True
               ''c2'' ''Boots'' ''Hiking'') = Update u
     \<and> map_of u (product_subcategory_path ''p2'') = Some (WString ''Default'')
     \<and> (\<exists>subs. map_of u (category_subcategories_path ''c2'') = Some (WStringList subs)
              \<and> subs \<noteq> [] \<and> subs = [''Default''])"
proof -
  have 1: "find (\<lambda>c. cat_id c = cat_id ex_boots) [ex_shoes, ex_boots] = Some ex_boots"
    by (simp add: ex_shoes_def ex_boots_def)
  have 2: "cat_id ex_boots \<noteq> []"
    by (simp add: ex_boots_def)
  have 3: "\<not> (cat_name ex_boots = ''Uncategorized'' \<and> ''Hiking'' = ''Default'')"
    by simp
  have 4: "\<not> (''Hiking'' = ''Default'' \<and> length (subcategories ex_boots) = 1
              \<and> cat_name ex_boots \<noteq> ''Uncategorized'')"
    by simp
  show ?thesis
    using delete_subcategory_reassigns[OF 1 2 3 4, of "[ex_runner, ex_hiker]" ex_view True]
    by (simp add: ex_boots_def ex_runner_def ex_hiker_def)
qed

text \<open>
  C6. Two deletions are rejected before any write, and leave the view state as it is:
  that of "Default" in "Uncategorized", and that of "Default" in another category of
  which it is the only subcategory.
\<close>

theorem delete_subcategory_rejections:
  "handleDeleteSubcategory categories items view accepted categoryId ''Uncategorized'' ''Default''
     = (NoWrite, view)
   \<and> (find (\<lambda>c. cat_id c = categoryId') categories' = Some C
        \<and> subcategories C = [''Default''] \<and> categoryName \<noteq> ''Uncategorized''
      \<longrightarrow> handleDeleteSubcategory categories' items' view' accepted' categoryId' categoryName ''Default''
            = (NoWrite, view'))"
  by (simp add: handleDeleteSubcategory_def)

theorem delete_subcategory_rejections_witness:
  "handleDeleteSubcategory [ex_shoes, ex_boots] [ex_runner, ex_hiker] ex_view True ''u1''
      ''Uncategorized'' ''Default'' = (NoWrite, ex_view)
   \<and> find (\<lambda>c. cat_id c = ''c1'') [ex_shoes, ex_boots] = Some ex_shoes
   \<and> subcategories ex_shoes = [''Default''] \<and> ''Shoes'' \<noteq> ''Uncategorized''
   \<and> handleDeleteSubcategory [ex_shoes, ex_boots] [ex_runner, ex_hiker] ex_view True ''c1''
      ''Shoes'' ''Default'' = (NoWrite, ex_view)"
  using delete_subcategory_rejections[of "[ex_shoes, ex_boots]" "[ex_runner, ex_hiker]" ex_view True
          "''u1''" "''c1''" "[ex_shoes, ex_boots]" ex_shoes "''Shoes''" "[ex_runner, ex_hiker]" ex_view True]
  by (simp add: ex_shoes_def ex_boots_def)

section \<open>Selling one unit: C4\<close>

declare bit_length.simps [simp del]

lemma to_double_exact: "a < 2 ^ 53 \<Longrightarrow> to_double a = a"
  by (simp add: to_double_def)

lemma js_minus_one_exact:
  assumes "0 < n" "n \<le> 2 ^ 53"
  shows "js_minus n 1 = n - 1"
proof -
  have "nat (n - 1) < 2 ^ 53"
    using assms by (simp add: nat_less_iff)
  then show ?thesis
    using assms(1) by (simp add: js_minus_def to_double_exact)
qed

lemma js_minus_one_nonneg: "0 < n \<Longrightarrow> 0 \<le> js_minus n 1"
  by (simp add: js_minus_def)

text \<open>
  C4, as the code has it. For a product found in the items list under a non-empty id, and
  any size: when the quantity of that size is 0 or the size has no entry, nothing is
  written and every stored quantity is as before; when it is N > 0, the single write, at
  the path of that product and size, is N - 1 as doubles compute it, which is never
  negative and is exactly N - 1 for every N up to 2^53, and the stored quantity of every
  other size and of every other product is as before. (The claim says exactly N - 1 for
  every N.)
\<close>

theorem sell_item_size:
  assumes "itemId \<noteq> []"
    and "find (\<lambda>i. item_id i = itemId) items = Some item"
  shows "((case sizes item sz of None \<Rightarrow> 0 | Some q \<Rightarrow> q) = 0 \<longrightarrow>
            handleSellItemSize items itemId sz = NoWrite
          \<and> (\<forall>pid s. quantity_after items (handleSellItemSize items itemId sz) pid s
                      = stored_quantity items pid s))
       \<and> (\<forall>n. sizes item sz = Some n \<and> n > 0 \<longrightarrow>
            handleSellItemSize items itemId sz
              = SetAt (product_size_path itemId sz) (WNumber (js_minus n 1))
          \<and> 0 \<le> js_minus n 1
          \<and> (n \<le> 2 ^ 53 \<longrightarrow> js_minus n 1 = n - 1)
          \<and> quantity_after items (handleSellItemSize items itemId sz) itemId sz
              = Some (js_minus n 1)
          \<and> (\<forall>pid s. (pid, s) \<noteq> (itemId, sz) \<longrightarrow>
                quantity_after items (handleSellItemSize items itemId sz) pid s
                  = stored_quantity items pid s))"
  using assms
  by (auto simp: handleSellItemSize_def quantity_after_def product_size_path_inject
        js_minus_one_exact js_minus_one_nonneg)

theorem sell_item_size_witness:
  "handleSellItemSize [ex_runner, ex_hiker] ''p1'' XS = NoWrite
   \<and> handleSellItemSize [ex_runner, ex_hiker] ''p1'' M = SetAt (product_size_path ''p1'' M) (WNumber 2)
   \<and> quantity_after [ex_runner, ex_hiker] (handleSellItemSize [ex_runner, ex_hiker] ''p1'' M) ''p1'' M = Some 2
   \<and> quantity_after [ex_runner, ex_hiker] (handleSellItemSize [ex_runner, ex_hiker] ''p1'' M) ''p2'' L = Some 2
   \<and> quantity_after [ex_runner, ex_hiker] (handleSellItemSize [ex_runner, ex_hiker] ''p1'' M) ''p1'' L = None"
proof -
  have 1: "''p1'' \<noteq> []" by simp
  have 2: "find (\<lambda>i. item_id i = ''p1'') [ex_runner, ex_hiker] = Some ex_runner"
    by (simp add: ex_runner_def)
  have xs: "(case sizes ex_runner XS of None \<Rightarrow> 0 | Some q \<Rightarrow> q) = 0"
    by (simp add: ex_runner_def)
  have m: "sizes ex_runner M = Some 3 \<and> (3::int) > 0"
    by (simp add: ex_runner_def)
  have st: "stored_quantity [ex_runner, ex_hiker] ''p2'' L = Some 2"
    "stored_quantity [ex_runner, ex_hiker] ''p1'' L = None"
    by (simp_all add: stored_quantity_def ex_runner_def ex_hiker_def)
  note sold_out = sell_item_size[OF 1 2, of XS, THEN conjunct1, rule_format, OF xs]
  note sold = sell_item_size[OF 1 2, of M, THEN conjunct2, rule_format, OF m]
  have exact: "js_minus 3 1 = 2"
    using sold by simp
  have a: "handleSellItemSize [ex_runner, ex_hiker] ''p1'' XS = NoWrite"
    using sold_out by simp
  have b: "handleSellItemSize [ex_runner, ex_hiker] ''p1'' M = SetAt (product_size_path ''p1'' M) (WNumber 2)"
    using sold exact by simp
  have c: "quantity_after [ex_runner, ex_hiker] (handleSellItemSize [ex_runner, ex_hiker] ''p1'' M) ''p1'' M = Some 2"
    using sold exact by (elim conjE) simp
  have others: "\<And>pid s. (pid, s) \<noteq> (''p1'', M) \<Longrightarrow>
      quantity_after [ex_runner, ex_hiker] (handleSellItemSize [ex_runner, ex_hiker] ''p1'' M) pid s
        = stored_quantity [ex_runner, ex_hiker] pid s"
    using sold by blast
  have d: "quantity_after [ex_runner, ex_hiker] (handleSellItemSize [ex_runner, ex_hiker] ''p1'' M) ''p2'' L = Some 2"
    using others[of "''p2''" L] st(1) by simp
  have e: "quantity_after [ex_runner, ex_hiker] (handleSellItemSize [ex_runner, ex_hiker] ''p1'' M) ''p1'' L = None"
    using others[of "''p1''" L] st(2) by simp
  from a b c d e show ?thesis by blast
qed

text \<open>
  The claim C4 as it is written fails. The product of the example holds 2^54 =
  18014398509481984 units of size M, a quantity the form accepts; 2^54 - 1 is not a
  double and rounds to 2^54, so the sell operation writes the quantity it found, not that
  quantity less one.
\<close>

theorem sell_large_quantity_counterexample:
  "sizes ex_bulk M = Some 18014398509481984
   \<and> handleSellItemSize [ex_bulk] ''p3'' M
       = SetAt (product_size_path ''p3'' M) (WNumber 18014398509481984)
   \<and> handleSellItemSize [ex_bulk] ''p3'' M
       \<noteq> SetAt (product_size_path ''p3'' M) (WNumber (18014398509481984 - 1))"
proof -
  have "bit_length 18014398509481983 = 54"
    by (simp add: bit_length.simps)
  then have "to_double 18014398509481983 = 18014398509481984"
    by (simp add: to_double_def Let_def)
  then have "js_minus 18014398509481984 1 = 18014398509481984"
    by (simp add: js_minus_def)
  then show ?thesis
    by (simp add: handleSellItemSize_def ex_bulk_def)
qed

section \<open>Navigation history: C7, C8\<close>

lemma view_of_set_view [simp]: "view_of (set_view v app) = v"
  by (simp add: view_of_def set_view_def)

lemma buildHistoryState_tagged: "buildHistoryState app i = tagged_entry (view_of app) i"
  by (simp add: buildHistoryState_def tagged_entry_def view_of_def)

lemma view_of_handlePopState_Tagged:
  "view_of (handlePopState (Tagged st) app) = restored_view (entry_view st)"
  by (simp add: handlePopState_def view_of_def restored_view_def entry_view_def)

lemma view_of_history_effect [simp]: "view_of (history_effect app) = view_of app"
  by (simp add: history_effect_def view_of_def Let_def)

lemma view_of_rerender [simp]: "view_of (rerender old new) = view_of new"
  by (simp add: rerender_def)

lemma restored_view_idem [simp]: "restored_view (restored_view v) = restored_view v"
  by (simp add: restored_view_def)

lemma entry_view_tagged:
  assumes "tagged_entry v i = Tagged st"
  shows "entry_view st = v" "historyIndex st = Some i"
  using assms by (auto simp: tagged_entry_def entry_view_def)

lemma navigate_push:
  assumes "\<not> isInitialHistoryRef app" "\<not> isHandlingPopStateRef app" "v \<noteq> view_of app"
  shows "view_of (navigate v app) = v"
    and "\<not> isInitialHistoryRef (navigate v app)"
    and "\<not> isHandlingPopStateRef (navigate v app)"
    and "historyIndexRef (navigate v app) = historyIndexRef app + 1"
    and "history (navigate v app) = pushState (tagged_entry v (historyIndexRef app + 1)) (history app)"
  using assms
  by (cases v;
      simp add: navigate_def rerender_def history_effect_def buildHistoryState_def tagged_entry_def
        set_view_def view_of_def)+

lemma native_back_Tagged:
  assumes "\<not> isInitialHistoryRef app" "back_entries (history app) = Tagged st # es"
  shows "view_of (native_back app) = restored_view (entry_view st)"
    and "historyIndexRef (native_back app) = (case historyIndex st of Some i \<Rightarrow> i | None \<Rightarrow> 0)"
    and "back_entries (history (native_back app)) = es"
    and "forward_entries (history (native_back app))
           = current_entry (history app) # forward_entries (history app)"
    and "\<not> isInitialHistoryRef (native_back app)"
    and "current_entry (history (native_back app)) = Tagged st
         \<or> current_entry (history (native_back app))
              = tagged_entry (restored_view (entry_view st))
                  (case historyIndex st of Some i \<Rightarrow> i | None \<Rightarrow> 0)"
  using assms
  by (simp_all add: native_back_def Let_def view_of_handlePopState_Tagged)
     (simp_all add: rerender_def handlePopState_def history_effect_def replaceState_def
        buildHistoryState_def tagged_entry_def restored_view_def entry_view_def)

lemma native_forward_Tagged:
  assumes "\<not> isInitialHistoryRef app" "forward_entries (history app) = Tagged st # es"
  shows "view_of (native_forward app) = restored_view (entry_view st)"
    and "historyIndexRef (native_forward app) = (case historyIndex st of Some i \<Rightarrow> i | None \<Rightarrow> 0)"
    and "forward_entries (history (native_forward app)) = es"
    and "back_entries (history (native_forward app))
           = current_entry (history app) # back_entries (history app)"
    and "\<not> isInitialHistoryRef (native_forward app)"
  using assms
  by (simp_all add: native_forward_def Let_def view_of_handlePopState_Tagged)
     (simp_all add: rerender_def handlePopState_def history_effect_def replaceState_def)

text \<open>
  C8, as the code has it. On a back or forward event whose entry carries the tag, the
  view mode and the history index of the entry are adopted (index 0 when the entry's is
  not a number); the entry's selection is adopted when its view mode is stock, and the
  selection is cleared when its view mode is admin; the next run of the history effect
  replaces the current entry and pushes nothing. On an entry without the tag nothing
  changes. (The claim says the selection of the entry is adopted in every case.)
\<close>

theorem popstate_restores:
  "handlePopState Untagged app = app
   \<and> viewMode (handlePopState (Tagged st) app) = hs_viewMode st
   \<and> (hs_viewMode st = Stock \<longrightarrow>
        selectedCategoryForView (handlePopState (Tagged st) app) = hs_selectedCategoryForView st
      \<and> selectedSubcategoryForView (handlePopState (Tagged st) app) = hs_selectedSubcategoryForView st)
   \<and> (hs_viewMode st = Admin \<longrightarrow>
        selectedCategoryForView (handlePopState (Tagged st) app) = None
      \<and> selectedSubcategoryForView (handlePopState (Tagged st) app) = None)
   \<and> historyIndexRef (handlePopState (Tagged st) app) = (case historyIndex st of Some i \<Rightarrow> i | None \<Rightarrow> 0)
   \<and> (\<not> isInitialHistoryRef app \<longrightarrow>
        history (history_effect (handlePopState (Tagged st) app))
          = replaceState (tagged_entry (restored_view (entry_view st))
                            (case historyIndex st of Some i \<Rightarrow> i | None \<Rightarrow> 0)) (history app)
      \<and> back_entries (history (history_effect (handlePopState (Tagged st) app)))
          = back_entries (history app)
      \<and> forward_entries (history (history_effect (handlePopState (Tagged st) app)))
          = forward_entries (history app))
   \<and> (\<not> isInitialHistoryRef app \<and> back_entries (history app) = Tagged st # es \<longrightarrow>
        view_of (native_back app) = restored_view (entry_view st)
      \<and> historyIndexRef (native_back app) = (case historyIndex st of Some i \<Rightarrow> i | None \<Rightarrow> 0)
      \<and> back_entries (history (native_back app)) = es
      \<and> forward_entries (history (native_back app))
          = current_entry (history app) # forward_entries (history app))
   \<and> (\<not> isInitialHistoryRef app \<and> forward_entries (history app) = Tagged st # es \<longrightarrow>
        view_of (native_forward app) = restored_view (entry_view st)
      \<and> historyIndexRef (native_forward app) = (case historyIndex st of Some i \<Rightarrow> i | None \<Rightarrow> 0)
      \<and> forward_entries (history (native_forward app)) = es
      \<and> back_entries (history (native_forward app))
          = current_entry (history app) # back_entries (history app))
   \<and> (back_entries (history app) = Untagged # es \<longrightarrow>
        view_of (native_back app) = view_of app
      \<and> historyIndexRef (native_back app) = historyIndexRef app)
   \<and> (forward_entries (history app) = Untagged # es \<longrightarrow>
        view_of (native_forward app) = view_of app
      \<and> historyIndexRef (native_forward app) = historyIndexRef app)"
proof -
  have untagged: "handlePopState Untagged app = app"
    by (simp add: handlePopState_def)
  have fields: "viewMode (handlePopState (Tagged st) app) = hs_viewMode st"
    "hs_viewMode st = Stock \<longrightarrow>
        selectedCategoryForView (handlePopState (Tagged st) app) = hs_selectedCategoryForView st
      \<and> selectedSubcategoryForView (handlePopState (Tagged st) app) = hs_selectedSubcategoryForView st"
    "hs_viewMode st = Admin \<longrightarrow>
        selectedCategoryForView (handlePopState (Tagged st) app) = None
      \<and> selectedSubcategoryForView (handlePopState (Tagged st) app) = None"
    "historyIndexRef (handlePopState (Tagged st) app) = (case historyIndex st of Some i \<Rightarrow> i | None \<Rightarrow> 0)"
    by (simp_all add: handlePopState_def)
  have eff: "\<not> isInitialHistoryRef app \<longrightarrow>
        history (history_effect (handlePopState (Tagged st) app))
          = replaceState (tagged_entry (restored_view (entry_view st))
                            (case historyIndex st of Some i \<Rightarrow> i | None \<Rightarrow> 0)) (history app)
      \<and> back_entries (history (history_effect (handlePopState (Tagged st) app)))
          = back_entries (history app)
      \<and> forward_entries (history (history_effect (handlePopState (Tagged st) app)))
          = forward_entries (history app)"
    by (simp add: handlePopState_def history_effect_def replaceState_def buildHistoryState_def
          tagged_entry_def restored_view_def entry_view_def)
  have bk: "\<not> isInitialHistoryRef app \<and> back_entries (history app) = Tagged st # es \<longrightarrow>
        view_of (native_back app) = restored_view (entry_view st)
      \<and> historyIndexRef (native_back app) = (case historyIndex st of Some i \<Rightarrow> i | None \<Rightarrow> 0)
      \<and> back_entries (history (native_back app)) = es
      \<and> forward_entries (history (native_back app))
          = current_entry (history app) # forward_entries (history app)"
    using native_back_Tagged(1-4)[of app st es] by simp
  have fw: "\<not> isInitialHistoryRef app \<and> forward_entries (history app) = Tagged st # es \<longrightarrow>
        view_of (native_forward app) = restored_view (entry_view st)
      \<and> historyIndexRef (native_forward app) = (case historyIndex st of Some i \<Rightarrow> i | None \<Rightarrow> 0)
      \<and> forward_entries (history (native_forward app)) = es
      \<and> back_entries (history (native_forward app))
          = current_entry (history app) # back_entries (history app)"
    using native_forward_Tagged(1-4)[of app st es] by simp
  have bk_untagged: "back_entries (history app) = Untagged # es \<longrightarrow>
        view_of (native_back app) = view_of app
      \<and> historyIndexRef (native_back app) = historyIndexRef app"
    by (simp add: native_back_def Let_def handlePopState_def rerender_def view_of_def)
  have fw_untagged: "forward_entries (history app) = Untagged # es \<longrightarrow>
        view_of (native_forward app) = view_of app
      \<and> historyIndexRef (native_forward app) = historyIndexRef app"
    by (simp add: native_forward_def Let_def handlePopState_def rerender_def view_of_def)
  from untagged fields eff bk fw bk_untagged fw_untagged show ?thesis
    by (intro conjI)
qed

lemmas nav_defs =
  mount_def navigate_def toggleViewMode_def handleSelectCategoryForView_def rerender_def
  set_view_def view_of_def history_effect_def pushState_def replaceState_def
  buildHistoryState_def native_back_def native_forward_def handlePopState_def Let_def

lemma ex_after_nav2_value:
  "ex_after_nav2 =
    \<lparr> viewMode = Admin, selectedCategoryForView = Some ''Shoes'', selectedSubcategoryForView = None,
      isHandlingPopStateRef = False, isInitialHistoryRef = False, historyIndexRef = 3,
      hasSeededHistoryRef = True,
      history = \<lparr> back_entries =
          [Tagged \<lparr> hs_viewMode = Stock, hs_selectedCategoryForView = Some ''Shoes'',
                    hs_selectedSubcategoryForView = None, historyIndex = Some 2 \<rparr>,
           Tagged \<lparr> hs_viewMode = Stock, hs_selectedCategoryForView = None,
                    hs_selectedSubcategoryForView = None, historyIndex = Some 1 \<rparr>,
           Tagged \<lparr> hs_viewMode = Stock, hs_selectedCategoryForView = None,
                    hs_selectedSubcategoryForView = None, historyIndex = Some 0 \<rparr>],
        current_entry =
           Tagged \<lparr> hs_viewMode = Admin, hs_selectedCategoryForView = Some ''Shoes'',
                    hs_selectedSubcategoryForView = None, historyIndex = Some 3 \<rparr>,
        forward_entries = [] \<rparr> \<rparr>"
  by (simp add: ex_after_nav2_def ex_after_nav1_def ex_history_def nav_defs)

lemma ex_after_nav3_value:
  "ex_after_nav3 =
    \<lparr> viewMode = Stock, selectedCategoryForView = None, selectedSubcategoryForView = None,
      isHandlingPopStateRef = False, isInitialHistoryRef = False, historyIndexRef = 4,
      hasSeededHistoryRef = True,
      history = \<lparr> back_entries =
          [Tagged \<lparr> hs_viewMode = Admin, hs_selectedCategoryForView = Some ''Shoes'',
                    hs_selectedSubcategoryForView = None, historyIndex = Some 3 \<rparr>,
           Tagged \<lparr> hs_viewMode = Stock, hs_selectedCategoryForView = Some ''Shoes'',
                    hs_selectedSubcategoryForView = None, historyIndex = Some 2 \<rparr>,
           Tagged \<lparr> hs_viewMode = Stock, hs_selectedCategoryForView = None,
                    hs_selectedSubcategoryForView = None, historyIndex = Some 1 \<rparr>,
           Tagged \<lparr> hs_viewMode = Stock, hs_selectedCategoryForView = None,
                    hs_selectedSubcategoryForView = None, historyIndex = Some 0 \<rparr>],
        current_entry =
           Tagged \<lparr> hs_viewMode = Stock, hs_selectedCategoryForView = None,
                    hs_selectedSubcategoryForView = None, historyIndex = Some 4 \<rparr>,
        forward_entries = [] \<rparr> \<rparr>"
  unfolding ex_after_nav3_def ex_after_nav2_value
  by (simp add: toggleViewMode_def navigate_def rerender_def set_view_def view_of_def
        history_effect_def pushState_def buildHistoryState_def)

lemma ex_back1_value:
  "native_back ex_after_nav3 =
    \<lparr> viewMode = Admin, selectedCategoryForView = None, selectedSubcategoryForView = None,
      isHandlingPopStateRef = False, isInitialHistoryRef = False, historyIndexRef = 3,
      hasSeededHistoryRef = True,
      history = \<lparr> back_entries =
          [Tagged \<lparr> hs_viewMode = Stock, hs_selectedCategoryForView = Some ''Shoes'',
                    hs_selectedSubcategoryForView = None, historyIndex = Some 2 \<rparr>,
           Tagged \<lparr> hs_viewMode = Stock, hs_selectedCategoryForView = None,
                    hs_selectedSubcategoryForView = None, historyIndex = Some 1 \<rparr>,
           Tagged \<lparr> hs_viewMode = Stock, hs_selectedCategoryForView = None,
                    hs_selectedSubcategoryForView = None, historyIndex = Some 0 \<rparr>],
        current_entry =
           Tagged \<lparr> hs_viewMode = Admin, hs_selectedCategoryForView = None,
                    hs_selectedSubcategoryForView = None, historyIndex = Some 3 \<rparr>,
        forward_entries =
          [Tagged \<lparr> hs_viewMode = Stock, hs_selectedCategoryForView = None,
                    hs_selectedSubcategoryForView = None, historyIndex = Some 4 \<rparr>] \<rparr> \<rparr>"
  unfolding ex_after_nav3_value
  by (simp add: native_back_def handlePopState_def rerender_def view_of_def history_effect_def
        replaceState_def buildHistoryState_def)

lemma ex_back2_value:
  "native_back (native_back ex_after_nav3) =
    \<lparr> viewMode = Stock, selectedCategoryForView = Some ''Shoes'', selectedSubcategoryForView = None,
      isHandlingPopStateRef = False, isInitialHistoryRef = False, historyIndexRef = 2,
      hasSeededHistoryRef = True,
      history = \<lparr> back_entries =
          [Tagged \<lparr> hs_viewMode = Stock, hs_selectedCategoryForView = None,
                    hs_selectedSubcategoryForView = None, historyIndex = Some 1 \<rparr>,
           Tagged \<lparr> hs_viewMode = Stock, hs_selectedCategoryForView = None,
                    hs_selectedSubcategoryForView = None, historyIndex = Some 0 \<rparr>],
        current_entry =
           Tagged \<lparr> hs_viewMode = Stock, hs_selectedCategoryForView = Some ''Shoes'',
                    hs_selectedSubcategoryForView = None, historyIndex = Some 2 \<rparr>,
        forward_entries =
          [Tagged \<lparr> hs_viewMode = Admin, hs_selectedCategoryForView = None,
                    hs_selectedSubcategoryForView = None, historyIndex = Some 3 \<rparr>,
           Tagged \<lparr> hs_viewMode = Stock, hs_selectedCategoryForView = None,
                    hs_selectedSubcategoryForView = None, historyIndex = Some 4 \<rparr>] \<rparr> \<rparr>"
  unfolding ex_back1_value
  by (simp add: native_back_def handlePopState_def rerender_def view_of_def history_effect_def
        replaceState_def buildHistoryState_def)

text \<open>
  The claim C8 as it is written fails. After the three navigations of the example the
  entry behind the current one carries the tag, with view mode admin and selected
  category "Shoes"; the back event on it leaves no category selected.
\<close>

theorem popstate_admin_entry_counterexample:
  "take 1 (back_entries (history ex_after_nav3)) =
     [Tagged \<lparr> hs_viewMode = Admin, hs_selectedCategoryForView = Some ''Shoes'',
               hs_selectedSubcategoryForView = None, historyIndex = Some 3 \<rparr>]
   \<and> selectedCategoryForView
        (handlePopState
           (Tagged \<lparr> hs_viewMode = Admin, hs_selectedCategoryForView = Some ''Shoes'',
                     hs_selectedSubcategoryForView = None, historyIndex = Some 3 \<rparr>)
           ex_after_nav3) = None
   \<and> selectedCategoryForView (native_back ex_after_nav3) = None
   \<and> selectedCategoryForView (native_back ex_after_nav3) \<noteq> Some ''Shoes''"
  unfolding ex_back1_value
  by (simp add: ex_after_nav3_value handlePopState_def)

theorem popstate_restores_witness:
  "view_of (native_back ex_after_nav3)
     = \<lparr> viewMode = Admin, selectedCategoryForView = None, selectedSubcategoryForView = None \<rparr>
   \<and> historyIndexRef (native_back ex_after_nav3) = 3
   \<and> length (back_entries (history (native_back ex_after_nav3))) = 3
   \<and> length (forward_entries (history (native_back ex_after_nav3))) = 1
   \<and> view_of (native_back (native_back ex_after_nav3))
     = \<lparr> viewMode = Stock, selectedCategoryForView = Some ''Shoes'', selectedSubcategoryForView = None \<rparr>
   \<and> historyIndexRef (native_back (native_back ex_after_nav3)) = 2
   \<and> view_of (native_forward (native_back (native_back ex_after_nav3)))
     = \<lparr> viewMode = Admin, selectedCategoryForView = None, selectedSubcategoryForView = None \<rparr>
   \<and> historyIndexRef (native_forward (native_back (native_back ex_after_nav3))) = 3
   \<and> view_of (native_back (native_back (mount ex_history_behind))) = view_of (native_back (mount ex_history_behind))
   \<and> historyIndexRef (native_back (native_back (mount ex_history_behind)))
       = historyIndexRef (native_back (mount ex_history_behind))
   \<and> view_of (native_forward (mount ex_history_reload)) = view_of (mount ex_history_reload)
   \<and> historyIndexRef (native_forward (mount ex_history_reload)) = historyIndexRef (mount ex_history_reload)"
proof -
  let ?admin = "\<lparr> hs_viewMode = Admin, hs_selectedCategoryForView = Some ''Shoes'',
                   hs_selectedSubcategoryForView = None, historyIndex = Some 3 \<rparr>"
  let ?admin' = "\<lparr> hs_viewMode = Admin, hs_selectedCategoryForView = None,
                   hs_selectedSubcategoryForView = None, historyIndex = Some 3 \<rparr>"
  let ?shoes = "\<lparr> hs_viewMode = Stock, hs_selectedCategoryForView = Some ''Shoes'',
                   hs_selectedSubcategoryForView = None, historyIndex = Some 2 \<rparr>"
  have a: "\<not> isInitialHistoryRef ex_after_nav3
           \<and> back_entries (history ex_after_nav3) = Tagged ?admin # tl (back_entries (history ex_after_nav3))"
    by (simp add: ex_after_nav3_value)
  have b: "\<not> isInitialHistoryRef (native_back ex_after_nav3)
           \<and> back_entries (history (native_back ex_after_nav3))
               = Tagged ?shoes # tl (back_entries (history (native_back ex_after_nav3)))"
    by (simp add: ex_back1_value)
  have c: "\<not> isInitialHistoryRef (native_back (native_back ex_after_nav3))
           \<and> forward_entries (history (native_back (native_back ex_after_nav3)))
               = Tagged ?admin' # tl (forward_entries (history (native_back (native_back ex_after_nav3))))"
    by (simp add: ex_back2_value)
  have d: "back_entries (history (native_back (mount ex_history_behind))) = Untagged # []"
    by (simp add: ex_history_behind_def nav_defs)
  have e: "forward_entries (history (mount ex_history_reload)) = Untagged # []"
    by (simp add: ex_history_reload_def nav_defs)
  note t = popstate_restores
  have 1: "view_of (native_back ex_after_nav3) = restored_view (entry_view ?admin)
      \<and> historyIndexRef (native_back ex_after_nav3) = 3
      \<and> back_entries (history (native_back ex_after_nav3)) = tl (back_entries (history ex_after_nav3))
      \<and> forward_entries (history (native_back ex_after_nav3))
          = current_entry (history ex_after_nav3) # forward_entries (history ex_after_nav3)"
    using t[of ex_after_nav3 ?admin "tl (back_entries (history ex_after_nav3))"] a by simp
  have 2: "view_of (native_back (native_back ex_after_nav3)) = restored_view (entry_view ?shoes)
      \<and> historyIndexRef (native_back (native_back ex_after_nav3)) = 2"
    using t[of "native_back ex_after_nav3" ?shoes "tl (back_entries (history (native_back ex_after_nav3)))"] b
    by simp
  have 3: "view_of (native_forward (native_back (native_back ex_after_nav3))) = restored_view (entry_view ?admin')
      \<and> historyIndexRef (native_forward (native_back (native_back ex_after_nav3))) = 3"
    using t[of "native_back (native_back ex_after_nav3)" ?admin'
            "tl (forward_entries (history (native_back (native_back ex_after_nav3))))"] c
    by simp
  have 4: "view_of (native_back (native_back (mount ex_history_behind))) = view_of (native_back (mount ex_history_behind))
     \<and> historyIndexRef (native_back (native_back (mount ex_history_behind)))
       = historyIndexRef (native_back (mount ex_history_behind))"
    using t[of "native_back (mount ex_history_behind)" undefined "[]"] d by simp
  have 5: "view_of (native_forward (mount ex_history_reload)) = view_of (mount ex_history_reload)
     \<and> historyIndexRef (native_forward (mount ex_history_reload)) = historyIndexRef (mount ex_history_reload)"
    using t[of "mount ex_history_reload" undefined "[]"] e by simp
  have lens: "length (tl (back_entries (history ex_after_nav3))) = 3"
    "length (current_entry (history ex_after_nav3) # forward_entries (history ex_after_nav3)) = 1"
    by (simp_all add: ex_after_nav3_value)
  from 1 2 3 4 5 lens show ?thesis
    by (simp add: restored_view_def entry_view_def)
qed




section \<open>CSV export: C9\<close>

declare nat_digits.simps [simp del]

lemma digit_char_code: "d < 10 \<Longrightarrow> of_char (digit_char d) = 48 + d"
  by (simp add: digit_char_def)

lemma csv_special_code: "csv_special c \<Longrightarrow> (of_char c :: nat) < 48"
  by (auto simp: csv_special_def)

lemma digit_char_not_special: "d < 10 \<Longrightarrow> \<not> csv_special (digit_char d)"
  using csv_special_code[of "digit_char d"] by (auto simp: digit_char_code)

lemma nat_digits_not_special: "c \<in> set (nat_digits n) \<Longrightarrow> \<not> csv_special c"
proof (induction n rule: nat_digits.induct)
  case (1 n)
  show ?case
  proof (cases "n < 10")
    case True
    then show ?thesis
      using "1.prems" by (auto simp: nat_digits.simps[of n] digit_char_not_special)
  next
    case False
    then show ?thesis
      using "1.prems" "1.IH" by (auto simp: nat_digits.simps[of n] digit_char_not_special)
  qed
qed

lemma punctuation_not_special:
  "\<not> csv_special (CHR ''0'')" "\<not> csv_special (CHR ''.'')" "\<not> csv_special (CHR ''e'')"
  "\<not> csv_special (CHR ''+'')" "\<not> csv_special (CHR ''-'')"
  by (simp_all add: csv_special_def)

lemma nat_string_not_special: "c \<in> set (nat_string x) \<Longrightarrow> \<not> csv_special c"
proof (cases "x < 2 ^ 53")
  case True
  then show "c \<in> set (nat_string x) \<Longrightarrow> \<not> csv_special c"
    by (simp add: nat_string_def nat_digits_not_special)
next
  case False
  show "c \<in> set (nat_string x) \<Longrightarrow> \<not> csv_special c"
  proof (cases "shortest_digits x")
    case None
    then show "c \<in> set (nat_string x) \<Longrightarrow> \<not> csv_special c"
      using False by (simp add: nat_string_def nat_digits_not_special)
  next
    case (Some p)
    obtain s e where p: "p = (s, e)" by (cases p)
    assume c: "c \<in> set (nat_string x)"
    have "c \<in> set (nat_digits s) \<or> c \<in> set (nat_digits (length (nat_digits s) + e - 1))
          \<or> c \<in> {CHR ''0'', CHR ''.'', CHR ''e'', CHR ''+''}"
      using c False Some p
      by (auto simp: nat_string_def Let_def split: if_splits dest: in_set_takeD in_set_dropD)
    then show "\<not> csv_special c"
      using nat_digits_not_special punctuation_not_special by auto
  qed
qed

lemma number_string_not_special: "c \<in> set (number_string i) \<Longrightarrow> \<not> csv_special c"
  using nat_string_not_special punctuation_not_special(5)
  by (auto simp: number_string_def split: if_splits)

lemma formatCsvValue_number: "formatCsvValue (CsvNumber n) = number_string n"
  using number_string_not_special[of _ n] by (auto simp: formatCsvValue_def csv_text_def)

lemma double_quotes_spec: "double_quotes t = spec_quotes_doubled t"
  by (induction t) (simp_all add: double_quotes_def)

lemma formatCsvValue_string: "formatCsvValue (CsvString t) = spec_csv_field t"
  by (auto simp: formatCsvValue_def csv_text_def spec_csv_field_def csv_special_def
        double_quotes_spec)

lemma join_Cons: "join sep (x # xs) = x @ concat (map (\<lambda>y. sep @ y) xs)"
  by (induction xs arbitrary: x) simp_all

lemma header_line:
  "join '','' (map formatCsvValue
      ([CsvString ''Name'', CsvString ''Image URL''] @ map (\<lambda>size. CsvString (size_name size)) SIZES))
   = ''Name,Image URL,XS,S,M,L,XL,XXL,3XL''"
  by (simp add: SIZES_def formatCsvValue_string spec_csv_field_def)

lemma data_line:
  "join '','' (map formatCsvValue
      ([CsvString (name item), CsvString (case imageUrl item of None \<Rightarrow> [] | Some url \<Rightarrow> url)]
       @ map (\<lambda>size. CsvNumber (case sizes item size of None \<Rightarrow> 0 | Some q \<Rightarrow> q)) SIZES))
   = spec_csv_row item"
  by (simp add: SIZES_def formatCsvValue_string formatCsvValue_number spec_csv_row_def
        spec_quantity_def)

text \<open>
  C9. When a category and a subcategory are selected, the export hands the browser a file
  whose text is the byte-order mark followed by the text the specification describes:
  the header \<^verbatim>\<open>Name,Image URL,XS,S,M,L,XL,XXL,3XL\<close>, then for each product, after a
  carriage return and line feed, its name, its image URL (empty when absent) and its
  seven quantities (0 for a missing size, each as \<^verbatim>\<open>String\<close> prints it), joined by commas, a
  field being wrapped in
  double quotes with its double quotes doubled exactly when it contains a comma, a double
  quote, a carriage return or a line feed.
\<close>

theorem export_csv_content:
  assumes "truthy selectedCategoryName" "truthy selectedSubcategoryName"
  shows "\<exists>d. handleExportSubcategory items selectedCategoryName selectedSubcategoryName = Some d
           \<and> blob_text d = 0xFEFF # map of_char (spec_csv_text items)"
proof -
  have rows: "buildCsvContent
      (([CsvString ''Name'', CsvString ''Image URL''] @ map (\<lambda>size. CsvString (size_name size)) SIZES)
       # map (\<lambda>item.
             [CsvString (name item), CsvString (case imageUrl item of None \<Rightarrow> [] | Some url \<Rightarrow> url)]
             @ map (\<lambda>size. CsvNumber (case sizes item size of None \<Rightarrow> 0 | Some q \<Rightarrow> q)) SIZES) items)
     = spec_csv_text items"
    unfolding buildCsvContent_def list.map join_Cons header_line
    by (simp only: map_map o_def data_line spec_csv_text_def)
  show ?thesis
    using assms rows
    by (simp add: handleExportSubcategory_def downloadCsvFile_def Let_def)
qed

theorem export_csv_content_witness:
  "\<exists>d. handleExportSubcategory [ex_runner_sold, ex_quoted] (Some ''Shoes'') (Some ''Default'') = Some d
      \<and> blob_text d = 0xFEFF # map of_char
           (''Name,Image URL,XS,S,M,L,XL,XXL,3XL'' @ [CHR 0x0D, CHR 0x0A]
            @ ''Runner,,0,0,1,0,0,0,0'' @ [CHR 0x0D, CHR 0x0A]
            @ [CHR 0x22] @ ''Run '' @ [CHR 0x22, CHR 0x22] @ ''fast'' @ [CHR 0x22, CHR 0x22]
            @ '', v2'' @ [CHR 0x22] @ '',,0,12,0,0,0,0,0'')"
proof -
  have t: "truthy (Some ''Shoes'')" "truthy (Some ''Default'')"
    by (simp_all add: truthy_def)
  have digits: "number_string 0 = ''0''" "number_string 1 = ''1''" "number_string 12 = ''12''"
    by (simp_all add: number_string_def nat_string_def nat_digits.simps digit_char_def char_of_def
          bit_Suc_0_iff)
  have row: "spec_csv_text [ex_runner_sold, ex_quoted]
      = ''Name,Image URL,XS,S,M,L,XL,XXL,3XL'' @ [CHR 0x0D, CHR 0x0A]
            @ ''Runner,,0,0,1,0,0,0,0'' @ [CHR 0x0D, CHR 0x0A]
            @ [CHR 0x22] @ ''Run '' @ [CHR 0x22, CHR 0x22] @ ''fast'' @ [CHR 0x22, CHR 0x22]
            @ '', v2'' @ [CHR 0x22] @ '',,0,12,0,0,0,0,0''"
    by (simp add: spec_csv_text_def spec_csv_row_def spec_csv_field_def spec_quantity_def
          ex_runner_sold_def ex_runner_def ex_quoted_def digits)
  show ?thesis
    using export_csv_content[OF t, of "[ex_runner_sold, ex_quoted]"] unfolding row .
qed

text \<open>
  \<^verbatim>\<open>String\<close> switches to exponent notation at \<open>10^21\<close>: \<^verbatim>\<open>String(1e21)\<close> is \<^verbatim>\<open>"1e+21"\<close>.
\<close>

lemma number_string_exponent: "number_string 1000000000000000000000 = ''1e+21''"
proof -
  let ?x = "1000000000000000000000 :: nat"
  have bl: "bit_length ?x = 70" "bit_length (2 * ?x) = 71" "bit_length (10 * ?x) = 74"
    by (simp_all add: bit_length.simps)
  have td: "to_double ?x = ?x" "to_double (2 * ?x) = 2 * ?x" "to_double (10 * ?x) = 10 * ?x"
    using bl by (simp_all add: to_double_def Let_def)
  have len: "length (nat_digits ?x) = 22"
    by (simp add: nat_digits.simps)
  have c: "shortest_candidates ?x (Suc 0) = [(Suc 0, 21)]"
    using td by (simp add: shortest_candidates_def len)
  have u: "[Suc 0..<18] = Suc 0 # [2..<18]"
    by (simp add: upt_conv_Cons)
  have s: "shortest_digits ?x = Some (Suc 0, 21)"
    by (simp add: shortest_digits_def u c)
  have d: "nat_digits (Suc 0) = ''1''" "nat_digits 21 = ''21''"
    by (simp_all add: nat_digits.simps digit_char_def char_of_def bit_Suc_0_iff)
  have "nat_string ?x = ''1e+21''"
    by (simp add: nat_string_def s d)
  then show ?thesis
    by (simp add: number_string_def)
qed

end
